theory Spec2Isabelle
  imports Main "HOL-Library.Word" "HOL-Library.AList"
begin

unbundle bit_operations_syntax

section \<open>Bytes and on-disk integers\<close>

type_synonym byte = "8 word"
type_synonym bytes = "byte list"
type_synonym u32 = "32 word"
type_synonym u64 = "64 word"

text \<open>
  Integers are stored in host byte order; the model fixes little-endian, the layout the
  specification documents. \<open>dec_le\<close> reads a word from its bytes, \<open>enc_le n\<close> writes
  the \<open>n\<close> low bytes of a word.
\<close>

fun dec_le :: "bytes \<Rightarrow> 'a::len word" where
  "dec_le [] = 0"
| "dec_le (b # bs) = ucast b OR push_bit 8 (dec_le bs)"

fun enc_le :: "nat \<Rightarrow> 'a::len word \<Rightarrow> bytes" where
  "enc_le 0 w = []"
| "enc_le (Suc n) w = ucast w # enc_le n (drop_bit 8 w)"

definition enc32 :: "u32 \<Rightarrow> bytes" where
  "enc32 w = enc_le 4 w"

definition enc64 :: "u64 \<Rightarrow> bytes" where
  "enc64 w = enc_le 8 w"

definition dec32 :: "bytes \<Rightarrow> u32" where
  "dec32 bs = dec_le bs"

definition dec64 :: "bytes \<Rightarrow> u64" where
  "dec64 bs = dec_le bs"

section \<open>Error kinds, record ids, the directory\<close>

datatype jlog_err =
    JLOG_ERR_SUCCESS
  | JLOG_ERR_ILLEGAL_INIT
  | JLOG_ERR_ILLEGAL_OPEN
  | JLOG_ERR_OPEN
  | JLOG_ERR_NOTDIR
  | JLOG_ERR_CREATE_PATHLEN
  | JLOG_ERR_CREATE_EXISTS
  | JLOG_ERR_CREATE_MKDIR
  | JLOG_ERR_CREATE_META
  | JLOG_ERR_LOCK
  | JLOG_ERR_IDX_OPEN
  | JLOG_ERR_IDX_SEEK
  | JLOG_ERR_IDX_CORRUPT
  | JLOG_ERR_IDX_WRITE
  | JLOG_ERR_IDX_READ
  | JLOG_ERR_FILE_OPEN
  | JLOG_ERR_FILE_SEEK
  | JLOG_ERR_FILE_CORRUPT
  | JLOG_ERR_FILE_READ
  | JLOG_ERR_FILE_WRITE
  | JLOG_ERR_META_OPEN
  | JLOG_ERR_ILLEGAL_WRITE
  | JLOG_ERR_ILLEGAL_CHECKPOINT
  | JLOG_ERR_INVALID_SUBSCRIBER
  | JLOG_ERR_ILLEGAL_LOGID
  | JLOG_ERR_SUBSCRIBER_EXISTS
  | JLOG_ERR_CHECKPOINT
  | JLOG_ERR_NOT_SUPPORTED
  | JLOG_ERR_CLOSE_LOGID

datatype jlog_mode = JLOG_NEW | JLOG_INIT | JLOG_READ | JLOG_APPEND | JLOG_INVALID

text \<open>The values of the C library's \<open>errno\<close> that the code or the model tells apart.\<close>

datatype errno = E_NONE | ENOENT | EEXIST | EACCES | EPERM | EINVAL | ENOLCK | EIO

record jlog_id =
  log :: u32
  marker :: u32

text \<open>
  The journal directory. Segment files and index files are keyed by the segment id that
  their names spell (\<open>XXXXXXXX\<close> and \<open>XXXXXXXX.idx\<close>); every other entry but the
  metastore is kept under its name, in the order \<open>readdir\<close> returns them. The last
  fields say which system calls the environment lets succeed: they give the model the
  failure branches of the code, and no function changes them. \<open>stack_garbage\<close> is
  what an uninitialised 32-bit local variable holds when the code reads one, and
  \<open>sys_errno\<close> is the C library's \<open>errno\<close>.
\<close>

record jlog_fs =
  dir_exists :: bool
  metastore_file :: "bytes option"
  data_files :: "(u32 \<times> bytes) list"
  index_files :: "(u32 \<times> bytes) list"
  named_files :: "(string \<times> bytes) list"
  can_lock :: bool
  can_write :: bool
  can_unlink :: bool
  can_opendir :: bool
  stack_garbage :: u32
  sys_errno :: errno

record jlog_meta_info =
  storage_log :: u32
  unit_limit :: u32
  safety :: u32
  hdr_magic :: u32

text \<open>
  The context. A file handle is modelled by the name it was opened on: \<open>data\<close> and
  \<open>index\<close> hold the segment id, \<open>checkpoint\<close> the directory entry, and
  \<open>metastore\<close> says whether the handle is there. So the model takes it that no file
  is unlinked while a handle on it stays open; the code closes its own handles before it
  unlinks a segment. \<open>mmap_len\<close> is
  \<open>None\<close> while \<open>mmap_base\<close> is \<open>NULL\<close>. \<open>trace\<close> is not a field of the code: it
  records, oldest first, the calls of \<open>___jlog_resync_index\<close>, its passes from the
  label \<open>restart\<close>, the truncations and unlocks of the index that a retry makes, and
  the calls of \<open>jlog_repair_datafile\<close>.
\<close>

datatype jlog_event =
    Resync_call u32
  | Resync_pass u32
  | Index_truncate u32 nat
  | Index_unlock u32
  | Repair_datafile u32

record jlog_ctx =
  metastore :: bool
  context_mode :: jlog_mode
  last_error :: jlog_err
  last_errno :: errno
  current_log :: u32
  data :: "u32 option"
  index :: "u32 option"
  checkpoint :: "string option"
  mmap_len :: "nat option"
  subscriber_name :: "bytes option"
  path :: string
  meta_is_mapped :: bool
  pre_init :: jlog_meta_info
  trace :: "jlog_event list"

section \<open>Checkpoint file names\<close>

text \<open>
  Modelled from the spec: the table \<open>__jlog_hexchars\<close> and the separator \<open>IFS_CH\<close>
  are declared outside \<open>src/\<close>; the specification says lowercase hexadecimal.
\<close>

definition jlog_hexchars :: string where
  "jlog_hexchars = ''0123456789abcdef''"

definition IFS_CH :: char where
  "IFS_CH = CHR ''/''"

text \<open>
  The loop of \<open>compute_checkpoint_filename\<close> over the subscriber name, a C string: it
  stops at the first zero byte (the end of the list is the terminator too).
\<close>

fun hex_of_subscriber :: "bytes \<Rightarrow> string" where
  "hex_of_subscriber [] = []"
| "hex_of_subscriber (c # sub) =
     (if c = 0 then []
      else jlog_hexchars ! unat (drop_bit 4 (c AND 0xf0))
         # jlog_hexchars ! unat (c AND 0x0f)
         # hex_of_subscriber sub)"

definition checkpoint_entry :: "bytes \<Rightarrow> string" where
  "checkpoint_entry subscriber = ''cp.'' @ hex_of_subscriber subscriber"

definition compute_checkpoint_filename :: "jlog_ctx \<Rightarrow> bytes \<Rightarrow> string" where
  "compute_checkpoint_filename ctx subscriber =
     path ctx @ [IFS_CH] @ checkpoint_entry subscriber"

text \<open>
  \<open>jlog_ctx_list_subscribers\<close>. \<open>hex_index\<close> is the inner loop
  \<open>for (i = 0; i < 16; i++) if (__jlog_hexchars[i] == *p) ... break\<close>.
  \<open>decode_subscriber\<close> is the loop over \<open>d_name + 3\<close>: it takes two characters a
  round, and a character that is no hex digit leaves its nibble zero. On a name of odd
  length the second \<open>p++\<close> steps over the terminator and the loop reads on behind the
  string: the model stops there with \<open>None\<close>.
\<close>

definition hex_index :: "char \<Rightarrow> nat option" where
  "hex_index ch = find (\<lambda>i. jlog_hexchars ! i = ch) [0..<16]"

fun decode_subscriber :: "string \<Rightarrow> bytes option" where
  "decode_subscriber [] = Some []"
| "decode_subscriber [a] = None"
| "decode_subscriber (a # b # p) =
     (let c = (case hex_index a of Some i \<Rightarrow> push_bit 4 (of_nat i) | None \<Rightarrow> 0);
          c = (case hex_index b of Some i \<Rightarrow> c OR of_nat i | None \<Rightarrow> c)
      in map_option ((#) c) (decode_subscriber p))"

definition strdup :: "bytes \<Rightarrow> bytes" where
  "strdup s = takeWhile (\<lambda>b. b \<noteq> 0) s"

definition is_checkpoint_entry :: "string \<Rightarrow> bool" where
  "is_checkpoint_entry d_name = (take 3 d_name = ''cp.'')"

datatype list_failure = Opendir_failed | Read_behind_name

fun list_entries :: "string list \<Rightarrow> list_failure + bytes list" where
  "list_entries [] = Inr []"
| "list_entries (d_name # ents) =
     (if is_checkpoint_entry d_name then
        (case decode_subscriber (drop 3 d_name) of
           None \<Rightarrow> Inl Read_behind_name
         | Some file \<Rightarrow>
             (case list_entries ents of
                Inl e \<Rightarrow> Inl e
              | Inr subs \<Rightarrow> Inr (strdup file # subs)))
      else list_entries ents)"

text \<open>
  The value returned is the number of names, \<open>js.used\<close>, or \<open>-1\<close> when the directory
  cannot be opened; the second component is \<open>*subs\<close>.
\<close>

definition jlog_ctx_list_subscribers :: "jlog_fs \<Rightarrow> list_failure + (int \<times> bytes list)" where
  "jlog_ctx_list_subscribers fs =
     (if \<not> can_opendir fs then Inl Opendir_failed
      else case list_entries (map fst (named_files fs)) of
             Inl e \<Rightarrow> Inl e
           | Inr subs \<Rightarrow> Inr (int (length subs), subs))"

section \<open>Removing a subscriber\<close>

text \<open>
  \<open>unlink(2)\<close> on an entry of the directory: \<open>ENOENT\<close> when there is no such entry,
  \<open>EACCES\<close> when the environment refuses, and the entry is gone otherwise.
\<close>

definition unlink_named :: "string \<Rightarrow> jlog_fs \<Rightarrow> int \<times> jlog_fs" where
  "unlink_named d_name fs =
     (if map_of (named_files fs) d_name = None then (-1, fs\<lparr>sys_errno := ENOENT\<rparr>)
      else if \<not> can_unlink fs then (-1, fs\<lparr>sys_errno := EACCES\<rparr>)
      else (0, fs\<lparr>named_files := AList.delete d_name (named_files fs)\<rparr>))"

definition jlog_ctx_remove_subscriber ::
  "bytes \<Rightarrow> jlog_ctx \<Rightarrow> jlog_fs \<Rightarrow> int \<times> jlog_ctx \<times> jlog_fs" where
  "jlog_ctx_remove_subscriber s ctx fs =
     (let (rv, fs) = unlink_named (checkpoint_entry s) fs in
      if rv = 0 then (1, ctx\<lparr>last_error := JLOG_ERR_SUCCESS\<rparr>, fs)
      else if sys_errno fs = ENOENT then (0, ctx\<lparr>last_error := JLOG_ERR_INVALID_SUBSCRIBER\<rparr>, fs)
      else (-1, ctx, fs))"

section \<open>The file primitive\<close>

text \<open>
  Modelled from the spec: the file primitive (\<open>jlog_file_open\<close>, \<open>_lock\<close>,
  \<open>_size\<close>, \<open>_pread\<close>, \<open>_pwrite\<close>, \<open>_truncate\<close>, \<open>_map_read\<close>) is outside
  \<open>src/\<close>; the specification names it an external collaborator providing locked
  pread, pwrite, mmap, truncate and sync. A read succeeds when all the bytes asked for
  are in the file; a write behind the end fills the gap with zeros.
\<close>

definition jlog_file_pread :: "bytes \<Rightarrow> nat \<Rightarrow> nat \<Rightarrow> bytes option" where
  "jlog_file_pread f nbyte offset =
     (if offset + nbyte \<le> length f then Some (take nbyte (drop offset f)) else None)"

text \<open>
  Modelled from the spec: what the buffer of \<open>jlog_file_pread\<close> holds after the call,
  whether it succeeded or not. The bytes that the file has from \<open>offset\<close> on, \<open>nbyte\<close>
  at most, are stored over the ones the buffer held (the primitive stores what each
  \<open>pread(2)\<close> gives before it gives up at the end of the file).
\<close>

definition jlog_file_pread_buf :: "bytes \<Rightarrow> nat \<Rightarrow> nat \<Rightarrow> bytes \<Rightarrow> bytes" where
  "jlog_file_pread_buf f nbyte offset buf =
     (let got = take nbyte (drop offset f) in got @ drop (length got) buf)"

definition jlog_file_pwrite :: "bytes \<Rightarrow> bytes \<Rightarrow> nat \<Rightarrow> bytes" where
  "jlog_file_pwrite f buf offset =
     take offset f @ replicate (offset - length f) 0 @ buf @ drop (offset + length buf) f"

definition jlog_file_truncate :: "bytes \<Rightarrow> nat \<Rightarrow> bytes" where
  "jlog_file_truncate f len = take len f @ replicate (len - length f) 0"

definition data_file :: "jlog_fs \<Rightarrow> u32 \<Rightarrow> bytes option" where
  "data_file fs lg = map_of (data_files fs) lg"

definition index_file :: "jlog_fs \<Rightarrow> u32 \<Rightarrow> bytes option" where
  "index_file fs lg = map_of (index_files fs) lg"

definition named_file :: "jlog_fs \<Rightarrow> string \<Rightarrow> bytes option" where
  "named_file fs d_name = map_of (named_files fs) d_name"

definition set_data_file :: "u32 \<Rightarrow> bytes \<Rightarrow> jlog_fs \<Rightarrow> jlog_fs" where
  "set_data_file lg f fs = fs\<lparr>data_files := AList.update lg f (data_files fs)\<rparr>"

definition set_index_file :: "u32 \<Rightarrow> bytes \<Rightarrow> jlog_fs \<Rightarrow> jlog_fs" where
  "set_index_file lg f fs = fs\<lparr>index_files := AList.update lg f (index_files fs)\<rparr>"

definition set_named_file :: "string \<Rightarrow> bytes \<Rightarrow> jlog_fs \<Rightarrow> jlog_fs" where
  "set_named_file d_name f fs = fs\<lparr>named_files := AList.update d_name f (named_files fs)\<rparr>"

text \<open>
  The macro \<open>SYS_FAIL\<close> is declared outside \<open>src/\<close>: it stores the error kind and the
  current \<open>errno\<close> in the context and jumps to the label \<open>finish\<close>. The jump is the
  control flow of each function below; this is the store.
\<close>

definition SYS_FAIL :: "jlog_err \<Rightarrow> jlog_ctx \<Rightarrow> jlog_fs \<Rightarrow> jlog_ctx" where
  "SYS_FAIL e ctx fs = ctx\<lparr>last_error := e, last_errno := sys_errno fs\<rparr>"

text \<open>
  \<open>MAXPATHLEN\<close> comes from the system headers (the value is Linux's). \<open>STRSETDATAFILE\<close>
  writes the path, the separator and the eight hex digits of the segment id;
  \<open>sizeof(INDEX_EXT)\<close> is five, the extension \<open>.idx\<close> and its terminator.
\<close>

definition MAXPATHLEN :: nat where
  "MAXPATHLEN = 4096"

definition index_name_fits :: "jlog_ctx \<Rightarrow> bool" where
  "index_name_fits ctx = (\<not> (length (path ctx) + 9 + 5 > MAXPATHLEN))"

section \<open>Opening and closing the reader and the indexer\<close>

definition jlog_munmap_reader_u2 :: "jlog_ctx \<Rightarrow> jlog_ctx" where
  "jlog_munmap_reader_u2 ctx = ctx\<lparr>mmap_len := None\<rparr>"

definition jlog_close_reader_u2 :: "jlog_ctx \<Rightarrow> jlog_ctx" where
  "jlog_close_reader_u2 ctx = (jlog_munmap_reader_u2 ctx)\<lparr>data := None\<rparr>"

definition jlog_close_indexer_u2 :: "jlog_ctx \<Rightarrow> jlog_ctx" where
  "jlog_close_indexer_u2 ctx = ctx\<lparr>index := None\<rparr>"

definition jlog_open_reader_u2 :: "u32 \<Rightarrow> jlog_ctx \<Rightarrow> jlog_fs \<Rightarrow> jlog_ctx \<times> jlog_fs" where
  "jlog_open_reader_u2 lg ctx fs =
     (let ctx = (if current_log ctx \<noteq> lg
                 then jlog_close_indexer_u2 (jlog_close_reader_u2 ctx) else ctx)
      in if data ctx \<noteq> None then (ctx, fs)
         else (case data_file fs lg of
                 None \<Rightarrow> (ctx\<lparr>data := None, current_log := lg\<rparr>, fs\<lparr>sys_errno := ENOENT\<rparr>)
               | Some f \<Rightarrow> (ctx\<lparr>data := Some lg, current_log := lg\<rparr>, fs)))"

text \<open>The index is opened with \<open>O_CREAT\<close>: a missing index file is created empty.\<close>

definition jlog_open_indexer_u2 :: "u32 \<Rightarrow> jlog_ctx \<Rightarrow> jlog_fs \<Rightarrow> jlog_ctx \<times> jlog_fs" where
  "jlog_open_indexer_u2 lg ctx fs =
     (let ctx = (if current_log ctx \<noteq> lg
                 then jlog_close_indexer_u2 (jlog_close_reader_u2 ctx) else ctx)
      in if index ctx \<noteq> None then (ctx, fs)
         else if \<not> index_name_fits ctx then (ctx, fs)
         else (case index_file fs lg of
                 None \<Rightarrow>
                   (if can_write fs
                    then (ctx\<lparr>index := Some lg, current_log := lg\<rparr>, set_index_file lg [] fs)
                    else (ctx\<lparr>index := None, current_log := lg\<rparr>, fs\<lparr>sys_errno := EACCES\<rparr>))
               | Some f \<Rightarrow> (ctx\<lparr>index := Some lg, current_log := lg\<rparr>, fs)))"

section \<open>Reading the index\<close>


section \<open>Record headers and the metastore\<close>

text \<open>
  Modelled from the spec: the header type \<open>jlog_message_header\<close> and the metastore type
  are declared outside \<open>src/\<close>. The specification fixes the layouts:
  \<open>magic(u32) | tv_sec(u32) | tv_usec(u32) | mlen(u32)\<close>, sixteen bytes, where the code
  calls the magic field \<open>reserved\<close>; and
  \<open>storage_log | unit_limit | safety | hdr_magic\<close>, sixteen bytes.
\<close>

record jlog_message_header =
  reserved :: u32
  tv_sec :: u32
  tv_usec :: u32
  mlen :: u32

definition hdr_size :: nat where
  "hdr_size = 16"

definition decode_header :: "bytes \<Rightarrow> jlog_message_header" where
  "decode_header b =
     \<lparr>reserved = dec32 (take 4 b), tv_sec = dec32 (take 4 (drop 4 b)),
      tv_usec = dec32 (take 4 (drop 8 b)), mlen = dec32 (take 4 (drop 12 b))\<rparr>"

definition encode_header :: "jlog_message_header \<Rightarrow> bytes" where
  "encode_header h = enc32 (reserved h) @ enc32 (tv_sec h) @ enc32 (tv_usec h) @ enc32 (mlen h)"

definition decode_meta :: "bytes \<Rightarrow> jlog_meta_info" where
  "decode_meta b =
     \<lparr>storage_log = dec32 (take 4 b), unit_limit = dec32 (take 4 (drop 4 b)),
      safety = dec32 (take 4 (drop 8 b)), hdr_magic = dec32 (take 4 (drop 12 b))\<rparr>"

definition encode_meta :: "jlog_meta_info \<Rightarrow> bytes" where
  "encode_meta m = enc32 (storage_log m) @ enc32 (unit_limit m) @ enc32 (safety m) @ enc32 (hdr_magic m)"

text \<open>
  \<open>ctx->meta\<close> points to the shared mapping of the metastore file once it is mapped, and
  to \<open>ctx->pre_init\<close> before.
\<close>

definition ctx_meta :: "jlog_ctx \<Rightarrow> jlog_fs \<Rightarrow> jlog_meta_info" where
  "ctx_meta ctx fs =
     (if meta_is_mapped ctx
      then decode_meta (case metastore_file fs of None \<Rightarrow> [] | Some b \<Rightarrow> b)
      else pre_init ctx)"

section \<open>Repairing a data file\<close>

text \<open>
  \<open>__jlog_mmap_reader\<close>. Mapping a file of length zero fails (\<open>mmap\<close> refuses it with
  \<open>EINVAL\<close>). The bytes under the mapping are those of the file.
\<close>

definition jlog_mmap_reader_u2 :: "u32 \<Rightarrow> jlog_ctx \<Rightarrow> jlog_fs \<Rightarrow> int \<times> jlog_ctx \<times> jlog_fs" where
  "jlog_mmap_reader_u2 lg ctx fs =
     (if current_log ctx = lg \<and> mmap_len ctx \<noteq> None then (0, ctx, fs)
      else let (ctx, fs) = jlog_open_reader_u2 lg ctx fs in
        case data ctx of
          None \<Rightarrow> (-1, ctx, fs)
        | Some h \<Rightarrow>
           (case data_file fs h of
              None \<Rightarrow> (-1, ctx\<lparr>mmap_len := None, last_error := JLOG_ERR_FILE_READ,
                                last_errno := EIO\<rparr>, fs\<lparr>sys_errno := EIO\<rparr>)
            | Some f \<Rightarrow>
                if f = []
                then (-1, ctx\<lparr>mmap_len := None, last_error := JLOG_ERR_FILE_READ,
                               last_errno := EINVAL\<rparr>, fs\<lparr>sys_errno := EINVAL\<rparr>)
                else (0, ctx\<lparr>mmap_len := Some (length f)\<rparr>, fs)))"

text \<open>
  The inner \<open>for\<close> loop of the error clause: the search for the next pair of valid
  headers. It carries \<open>next\<close>, \<open>afternext\<close> and \<open>hdr\<close>, and returns them as they
  are when the loop is left. Offsets are relative to \<open>mmap_base\<close>, and natural
  numbers here, so the test \<open>afternext <= mmap_base\<close> is never true and is left out.
  \<open>afternext\<close> is assigned in every search before it is read, so each search starts
  with zero for it.
\<close>

function repair_search ::
  "bytes \<Rightarrow> u32 \<Rightarrow> nat \<Rightarrow> nat \<Rightarrow> jlog_message_header \<Rightarrow> nat \<times> nat \<times> jlog_message_header" where
  "repair_search m magic next afternext hdr =
     (if next + hdr_size \<le> length m then
        (let hdr = decode_header (take hdr_size (drop next m)) in
         if reserved hdr = magic then
           (let afternext = next + hdr_size + unat (mlen hdr) in
            if afternext = length m then (next, afternext, hdr)
            else if afternext + hdr_size > length m
            then repair_search m magic (Suc next) afternext hdr
            else (let hdr = decode_header (take hdr_size (drop afternext m)) in
                  if reserved hdr = magic then (next, afternext, hdr)
                  else repair_search m magic (Suc next) afternext hdr))
         else repair_search m magic (Suc next) afternext hdr)
      else (next, afternext, hdr))"
  by pat_completeness auto
termination
  by (relation "measure (\<lambda>(m, magic, next, afternext, hdr). length m + hdr_size - next)")
     (auto simp add: hdr_size_def)

text \<open>
  The \<open>while\<close> loop of \<open>jlog_repair_datafile\<close>: \<open>this\<close> starts one header before the
  mapping, so it is an integer. The result is the final \<open>this\<close> and the invalid regions
  tagged so far, oldest first.
\<close>

function repair_scan ::
  "bytes \<Rightarrow> u32 \<Rightarrow> int \<Rightarrow> jlog_message_header \<Rightarrow> (nat \<times> nat) list \<Rightarrow> int \<times> (nat \<times> nat) list" where
  "repair_scan m magic this hdr invalid =
     (if this + int hdr_size \<le> int (length m) then
        (let next = this + int hdr_size + int (unat (mlen hdr));
             hdr' = decode_header (take hdr_size (drop (nat next) m))
         in if \<not> next \<le> 0 \<and> next = int (length m) then (next, invalid)
            else if \<not> next \<le> 0 \<and> \<not> next + int hdr_size > int (length m) \<and> reserved hdr' = magic
            then repair_scan m magic next hdr' invalid
            else
              (let (next, afternext, hdr) =
                     repair_search m magic (nat (this + int hdr_size)) 0
                       (if \<not> next \<le> 0 \<and> \<not> next + int hdr_size > int (length m) then hdr' else hdr);
                   this = (if this < 0 then 0 else this)
               in if next + hdr_size > length m then (this, invalid)
                  else repair_scan m magic (int afternext) hdr
                         (if int next > this then invalid @ [(nat this, next)] else invalid)))
      else (this, invalid))"
  by pat_completeness auto


declare repair_search.simps [simp del]

lemma repair_search_bounds:
  "repair_search m magic next afternext hdr = (next', afternext', hdr') \<Longrightarrow>
   next' + hdr_size \<le> length m \<Longrightarrow> next \<le> next' \<and> next' + hdr_size \<le> afternext'"
proof (induction m magic "next" afternext hdr rule: repair_search.induct)
  case (1 m magic "next" afternext hdr)
  note eq = "1.prems"(1) and bound = "1.prems"(2)
  show ?case
  proof (cases "next + hdr_size \<le> length m")
    case False
    with eq bound show ?thesis by (simp add: repair_search.simps [of m magic "next"])
  next
    case fits: True
    define h where "h = decode_header (take hdr_size (drop next m))"
    define a where "a = next + hdr_size + unat (mlen h)"
    define h2 where "h2 = decode_header (take hdr_size (drop a m))"
    show ?thesis
    proof (cases "reserved h = magic")
      case False
      with fits eq have "repair_search m magic (Suc next) afternext h = (next', afternext', hdr')"
        by (simp add: repair_search.simps [of m magic "next"] h_def Let_def)
      from "1.IH"(3) [OF fits h_def False this bound]
      show ?thesis by simp
    next
      case magic: True
      show ?thesis
      proof (cases "a = length m")
        case True
        with fits magic eq have "next' = next" "afternext' = a"
          by (simp_all add: repair_search.simps [of m magic "next"] h_def [symmetric] a_def [symmetric] Let_def)
        then show ?thesis by (simp add: a_def)
      next
        case notend: False
        show ?thesis
        proof (cases "a + hdr_size > length m")
          case True
          with fits magic notend eq have "repair_search m magic (Suc next) a h = (next', afternext', hdr')"
            by (simp add: repair_search.simps [of m magic "next"] h_def [symmetric] a_def [symmetric] Let_def)
          from "1.IH"(1) [OF fits h_def magic a_def notend True this bound]
          show ?thesis by simp
        next
          case room: False
          show ?thesis
          proof (cases "reserved h2 = magic")
            case True
            with fits magic notend room eq have "next' = next" "afternext' = a"
              by (simp_all add: repair_search.simps [of m magic "next"] h_def [symmetric] a_def [symmetric] h2_def [symmetric] Let_def)
            then show ?thesis by (simp add: a_def)
          next
            case False
            with fits magic notend room eq have "repair_search m magic (Suc next) a h2 = (next', afternext', hdr')"
              by (simp add: repair_search.simps [of m magic "next"] h_def [symmetric] a_def [symmetric] h2_def [symmetric] Let_def)
            from "1.IH"(2) [OF fits h_def magic a_def notend room h2_def False this bound]
            show ?thesis by simp
          qed
        qed
      qed
    qed
  qed
qed

termination repair_scan
proof (relation "measure (\<lambda>(m, magic, this, hdr, invalid). nat (int (length m) + int hdr_size - this))",
       goal_cases)
  case 1
  show ?case by simp
next
  case (2 m magic this hdr invalid "next" hdr')
  have nn: "0 \<le> uint (mlen hdr)" by simp
  from 2 show ?case by (simp add: hdr_size_def, insert nn, linarith)
next
  case (3 m magic this hdr invalid "next" hdr' x nexta y afternext hdra thisa)
  from 3 have eq: "repair_search m magic (nat (this + int hdr_size)) 0
      (if \<not> next \<le> 0 \<and> \<not> int (length m) < next + int hdr_size then hdr' else hdr)
      = (nexta, afternext, hdra)"
    by simp
  from 3 have fits: "nexta + hdr_size \<le> length m" by simp
  from repair_search_bounds [OF eq fits] 3(1)
  show ?case by (simp add: hdr_size_def) linarith
qed

declare repair_scan.simps [simp del]

text \<open>
  \<open>MOVE_SEGMENT\<close>: the block copy of \<open>len\<close> bytes from \<open>src\<close> to \<open>dst\<close> through a
  buffer of 4096 bytes. It returns the file and the final \<open>dst\<close>, or the error of the
  read or write that failed.
\<close>

function MOVE_SEGMENT ::
  "bool \<Rightarrow> bytes \<Rightarrow> nat \<Rightarrow> nat \<Rightarrow> nat \<Rightarrow> jlog_err + (bytes \<times> nat)" where
  "MOVE_SEGMENT wr f len src dst =
     (if len > 0 then
        (let chunk = (if len > 4096 then 4096 else len) in
         case jlog_file_pread f chunk src of
           None \<Rightarrow> Inl JLOG_ERR_FILE_READ
         | Some cpbuff \<Rightarrow>
             if \<not> wr then Inl JLOG_ERR_FILE_WRITE
             else MOVE_SEGMENT wr (jlog_file_pwrite f cpbuff dst) (len - chunk)
                    (src + chunk) (dst + chunk))
      else Inr (f, dst))"
  by pat_completeness auto
termination
  by (relation "measure (\<lambda>(wr, f, len, src, dst). len)") auto

declare MOVE_SEGMENT.simps [simp del]

text \<open>
  The loop \<open>for (i = 0; i < invalid_count - 1; )\<close>, over the invalid regions from the
  one at \<open>i\<close> on: it moves the valid bytes between a region and the next one.
\<close>

fun repair_compact ::
  "bool \<Rightarrow> bytes \<Rightarrow> (nat \<times> nat) list \<Rightarrow> nat \<Rightarrow> jlog_err + (bytes \<times> nat)" where
  "repair_compact wr f ((s, e) # (s', e') # invalid) dst =
     (case MOVE_SEGMENT wr f (s' - e) e dst of
        Inl err \<Rightarrow> Inl err
      | Inr (f, dst) \<Rightarrow> repair_compact wr f ((s', e') # invalid) dst)"
| "repair_compact wr f invalid dst = Inr (f, dst)"

text \<open>
  \<open>jlog_repair_datafile\<close>. The value is \<open>-1\<close> or the number of invalid regions. The
  file is read through the mapping during the scan and through the handle afterwards.
\<close>

definition jlog_repair_datafile :: "u32 \<Rightarrow> jlog_ctx \<Rightarrow> jlog_fs \<Rightarrow> int \<times> jlog_ctx \<times> jlog_fs" where
  "jlog_repair_datafile lg ctx fs =
     (let ctx = ctx\<lparr>last_error := JLOG_ERR_SUCCESS, trace := trace ctx @ [Repair_datafile lg]\<rparr>;
          (ctx, fs) = jlog_open_reader_u2 lg ctx fs
      in case data ctx of
           None \<Rightarrow> (-1, ctx\<lparr>last_error := JLOG_ERR_FILE_OPEN, last_errno := sys_errno fs\<rparr>, fs)
         | Some h \<Rightarrow>
            if \<not> can_lock fs
            then (-1, ctx\<lparr>last_error := JLOG_ERR_LOCK, last_errno := sys_errno fs\<rparr>, fs)
            else
              (let (rv, ctx, fs) = jlog_mmap_reader_u2 lg ctx fs in
               if rv \<noteq> 0 then (-1, SYS_FAIL JLOG_ERR_FILE_READ ctx fs, fs)
               else
                 (let m = (case data_file fs h of None \<Rightarrow> [] | Some f \<Rightarrow> f);
                      orig_len = length m;
                      magic = hdr_magic (ctx_meta ctx fs);
                      (this, invalid) =
                         repair_scan m magic (- int hdr_size)
                           \<lparr>reserved = magic, tv_sec = 0, tv_usec = 0, mlen = 0\<rparr> [];
                      invalid = (if this \<noteq> int orig_len
                                 then invalid @ [(nat this, orig_len)] else invalid)
                  in if invalid = [] then (0, ctx, fs)
                     else
                       (let ctx = jlog_munmap_reader_u2 ctx in
                        case repair_compact (can_write fs) m invalid (fst (hd invalid)) of
                          Inl err \<Rightarrow> (-1, SYS_FAIL err ctx fs, fs)
                        | Inr (f, dst) \<Rightarrow>
                           (let src = snd (last invalid) in
                            case (if orig_len - src > 0
                                  then MOVE_SEGMENT (can_write fs) f (orig_len - src) src dst
                                  else Inr (f, dst)) of
                              Inl err \<Rightarrow> (-1, SYS_FAIL err ctx (set_data_file h f fs), set_data_file h f fs)
                            | Inr (f, dst) \<Rightarrow>
                                if \<not> can_write fs
                                then (-1, SYS_FAIL JLOG_ERR_FILE_WRITE ctx (set_data_file h f fs),
                                      set_data_file h f fs)
                                else (int (length invalid), ctx,
                                      set_data_file h (jlog_file_truncate f dst) fs))))))"


section \<open>Resynchronising the index\<close>

definition BUFFERED_INDICES :: nat where
  "BUFFERED_INDICES = 1024"

text \<open>
  How a stretch of \<open>___jlog_resync_index\<close> is left: by \<open>SYS_FAIL\<close>, by the jump to
  \<open>finish\<close> of a closed index, by \<open>RESTART\<close>, or onwards with \<open>data_off\<close>.
\<close>

datatype resync_step = Step_fail jlog_err | Step_closed | Step_restart | Step_off nat

text \<open>The last entry of an index of more than one entry (\<open>index_off > sizeof(u_int64_t)\<close>).\<close>

definition resync_last_entry :: "bytes \<Rightarrow> nat \<Rightarrow> nat \<Rightarrow> resync_step" where
  "resync_last_entry idxf index_off data_len =
     (if index_off > 8 then
        (case jlog_file_pread idxf 8 (index_off - 8) of
           None \<Rightarrow> Step_fail JLOG_ERR_IDX_READ
         | Some b \<Rightarrow>
             (let index = dec64 b in
              if index = 0 then Step_closed
              else if unat index > data_len then Step_restart
              else Step_off (unat index)))
      else Step_off 0)"

text \<open>Adding onto a partial index: one record is stepped over.\<close>

definition resync_advance :: "bytes \<Rightarrow> nat \<Rightarrow> nat \<Rightarrow> nat \<Rightarrow> resync_step" where
  "resync_advance dataf index_off data_off data_len =
     (if index_off > 0 then
        (case jlog_file_pread dataf hdr_size data_off of
           None \<Rightarrow> Step_fail JLOG_ERR_FILE_READ
         | Some b \<Rightarrow>
             (let data_off = data_off + hdr_size + unat (mlen (decode_header b)) in
              if data_off > data_len then Step_restart else Step_off data_off))
      else Step_off data_off)"

text \<open>
  The \<open>while\<close> loop over the records. \<open>indices\<close> are the offsets buffered and not yet
  written (\<open>i\<close> is their number), \<open>idxf\<close> is the index file. The loop ends by
  \<open>SYS_FAIL\<close>, by \<open>RESTART\<close> with the current \<open>index_off\<close>, or normally with
  \<open>data_off\<close>, \<open>index_off\<close> and the buffer.
\<close>

datatype scan_result =
    Scan_fail jlog_err bytes
  | Scan_restart nat bytes
  | Scan_done nat nat "u64 list" bytes

function resync_scan ::
  "bytes \<Rightarrow> u32 \<Rightarrow> bool \<Rightarrow> nat \<Rightarrow> nat \<Rightarrow> nat \<Rightarrow> u64 list \<Rightarrow> bytes \<Rightarrow> scan_result" where
  "resync_scan dataf magic wr data_len data_off index_off indices idxf =
     (if data_off + hdr_size \<le> data_len then
        (case jlog_file_pread dataf hdr_size data_off of
           None \<Rightarrow> Scan_fail JLOG_ERR_FILE_READ idxf
         | Some b \<Rightarrow>
             (let logmhdr = decode_header b in
              if reserved logmhdr \<noteq> magic then Scan_fail JLOG_ERR_FILE_CORRUPT idxf
              else
                (let next_off = data_off + hdr_size + unat (mlen logmhdr) in
                 if next_off > data_len then Scan_done data_off index_off indices idxf
                 else
                   (let indices = indices @ [of_nat data_off] in
                    if length indices \<ge> BUFFERED_INDICES then
                      (if \<not> wr then Scan_restart index_off idxf
                       else resync_scan dataf magic wr data_len next_off
                              (index_off + length indices * 8) []
                              (jlog_file_pwrite idxf (concat (map enc64 indices)) index_off))
                    else resync_scan dataf magic wr data_len next_off index_off indices idxf))))
      else Scan_done data_off index_off indices idxf)"
  by pat_completeness auto
termination
  by (relation "measure (\<lambda>(dataf, magic, wr, data_len, data_off, index_off, indices, idxf).
                   data_len - data_off)")
     (auto simp add: hdr_size_def)

declare resync_scan.simps [simp del]

text \<open>How a pass from the label \<open>restart\<close> is left.\<close>

datatype resync_exit = Return_early | Goto_finish | Goto_restart nat

text \<open>
  After the loop: the buffer is written, \<open>last\<close> is set, and a segment that the writer
  has left is closed. The result is the exit, the error of a \<open>SYS_FAIL\<close>, the index
  file, \<open>*last\<close> and \<open>*closed\<close>.
\<close>

definition resync_seal ::
  "u32 \<Rightarrow> u32 \<Rightarrow> bool \<Rightarrow> nat \<Rightarrow> nat \<Rightarrow> nat \<Rightarrow> u64 list \<Rightarrow> bytes \<Rightarrow> jlog_id option
   \<Rightarrow> resync_exit \<times> jlog_err option \<times> bytes \<times> jlog_id option \<times> bool" where
  "resync_seal lg stor wr data_len data_off index_off indices idxf lastp =
     (if indices \<noteq> [] \<and> \<not> wr then (Goto_restart index_off, None, idxf, lastp, False)
      else
        (let idxf = (if indices \<noteq> []
                     then jlog_file_pwrite idxf (concat (map enc64 indices)) index_off
                     else idxf);
             index_off = (if indices \<noteq> [] then index_off + length indices * 8 else index_off);
             lastp = Some \<lparr>log = lg, marker = of_nat (index_off div 8)\<rparr>
         in if lg < stor then
              (if data_off \<noteq> data_len
               then (Goto_finish, Some JLOG_ERR_FILE_CORRUPT, idxf, lastp, False)
               else if index_off \<noteq> 0 then
                 (if \<not> wr then (Goto_restart index_off, None, idxf, lastp, False)
                  else (Goto_finish, None, jlog_file_pwrite idxf (enc64 0) index_off, lastp, True))
               else (Goto_finish, None, idxf, lastp, True))
            else (Goto_finish, None, idxf, lastp, False)))"

text \<open>
  One pass of \<open>___jlog_resync_index\<close>, from the label \<open>restart\<close> to the first of: a
  \<open>return\<close> before the index is locked, a jump to \<open>finish\<close>, or \<open>RESTART\<close>.
  \<open>resync_body\<close> is the pass once both files are open and the index is locked: it works
  on the bytes of the data file and of the index file, and gives the exit, the error of a
  \<open>SYS_FAIL\<close>, the index file, \<open>*last\<close> and \<open>*closed\<close>.
\<close>

definition resync_body ::
  "u32 \<Rightarrow> jlog_id option \<Rightarrow> u32 \<Rightarrow> u32 \<Rightarrow> bool \<Rightarrow> bytes \<Rightarrow> bytes
   \<Rightarrow> resync_exit \<times> jlog_err option \<times> bytes \<times> jlog_id option \<times> bool" where
  "resync_body lg lastp magic stor wr dataf idxf =
     (let data_len = length dataf; index_off = length idxf in
      if index_off mod 8 \<noteq> 0 then (Goto_restart index_off, None, idxf, lastp, False)
      else
        (case resync_last_entry idxf index_off data_len of
           Step_fail e \<Rightarrow> (Goto_finish, Some e, idxf, lastp, False)
         | Step_closed \<Rightarrow>
             (Goto_finish, None, idxf,
              Some \<lparr>log = lg, marker = of_nat (index_off div 8) - 1\<rparr>, True)
         | Step_restart \<Rightarrow> (Goto_restart index_off, None, idxf, lastp, False)
         | Step_off data_off \<Rightarrow>
            (case resync_advance dataf index_off data_off data_len of
               Step_fail e \<Rightarrow> (Goto_finish, Some e, idxf, lastp, False)
             | Step_closed \<Rightarrow> (Goto_finish, None, idxf, lastp, False)
             | Step_restart \<Rightarrow> (Goto_restart index_off, None, idxf, lastp, False)
             | Step_off data_off \<Rightarrow>
                (case resync_scan dataf magic wr data_len data_off index_off [] idxf of
                   Scan_fail e idxf \<Rightarrow> (Goto_finish, Some e, idxf, lastp, False)
                 | Scan_restart index_off idxf \<Rightarrow>
                     (Goto_restart index_off, None, idxf, lastp, False)
                 | Scan_done data_off index_off indices idxf \<Rightarrow>
                     resync_seal lg stor wr data_len data_off index_off indices idxf lastp))))"

definition jlog_resync_pass ::
  "u32 \<Rightarrow> jlog_id option \<Rightarrow> jlog_ctx \<Rightarrow> jlog_fs
   \<Rightarrow> resync_exit \<times> jlog_ctx \<times> jlog_fs \<times> jlog_id option \<times> bool" where
  "jlog_resync_pass lg lastp ctx fs =
     (let ctx = ctx\<lparr>trace := trace ctx @ [Resync_pass lg]\<rparr>;
          (ctx, fs) = jlog_open_indexer_u2 lg ctx fs
      in case index ctx of
           None \<Rightarrow> (Return_early, ctx\<lparr>last_error := JLOG_ERR_IDX_OPEN,
                                       last_errno := sys_errno fs\<rparr>, fs, lastp, False)
         | Some ih \<Rightarrow>
            if \<not> can_lock fs
            then (Return_early, ctx\<lparr>last_error := JLOG_ERR_LOCK,
                                     last_errno := sys_errno fs\<rparr>, fs, lastp, False)
            else
              (case (case data ctx of None \<Rightarrow> None | Some dh \<Rightarrow> data_file fs dh) of
                 None \<Rightarrow> (Goto_finish, SYS_FAIL JLOG_ERR_FILE_SEEK ctx fs, fs, lastp, False)
               | Some dataf \<Rightarrow>
                  (case index_file fs ih of
                     None \<Rightarrow> (Goto_finish, SYS_FAIL JLOG_ERR_IDX_SEEK ctx fs, fs, lastp, False)
                   | Some idxf \<Rightarrow>
                      (case resync_body lg lastp (hdr_magic (ctx_meta ctx fs))
                              (storage_log (ctx_meta ctx fs)) (can_write fs) dataf idxf of
                         (ex, err, idxf, lastp, closed) \<Rightarrow>
                           (ex, (case err of None \<Rightarrow> ctx | Some e \<Rightarrow> SYS_FAIL e ctx fs),
                            set_index_file ih idxf fs, lastp, closed)))))"

text \<open>
  The first branch of the macro \<open>RESTART\<close> (\<open>second_try == 0\<close>): the index is truncated
  to \<open>index_off\<close> and unlocked, and the error is cleared. \<open>jlog_file_truncate\<close> changes
  the file when the environment lets it; its result is not looked at.
\<close>

definition truncate_index :: "u32 \<Rightarrow> nat \<Rightarrow> jlog_fs \<Rightarrow> jlog_fs" where
  "truncate_index ih len fs =
     (case index_file fs ih of
        None \<Rightarrow> fs
      | Some f \<Rightarrow> if can_write fs then set_index_file ih (jlog_file_truncate f len) fs else fs)"

definition RESTART :: "u32 \<Rightarrow> nat \<Rightarrow> jlog_ctx \<Rightarrow> jlog_fs \<Rightarrow> jlog_ctx \<times> jlog_fs" where
  "RESTART lg index_off ctx fs =
     (ctx\<lparr>last_error := JLOG_ERR_SUCCESS,
          trace := trace ctx @ [Index_truncate lg index_off, Index_unlock lg]\<rparr>,
      (case index ctx of None \<Rightarrow> fs | Some ih \<Rightarrow> truncate_index ih index_off fs))"

text \<open>The label \<open>finish\<close>: the index is unlocked and the error decides the value.\<close>

definition resync_finish ::
  "jlog_ctx \<Rightarrow> jlog_fs \<Rightarrow> jlog_id option \<Rightarrow> bool
   \<Rightarrow> int \<times> jlog_ctx \<times> jlog_fs \<times> jlog_id option \<times> bool" where
  "resync_finish ctx fs lastp closed =
     ((if last_error ctx = JLOG_ERR_SUCCESS then 0 else -1), ctx, fs, lastp, closed)"

text \<open>
  \<open>___jlog_resync_index\<close>: the value returned, the context, the directory, \<open>*last\<close>
  (\<open>None\<close> while nothing is stored there) and \<open>*closed\<close>.
\<close>

definition jlog_resync_index_u3 ::
  "u32 \<Rightarrow> jlog_ctx \<Rightarrow> jlog_fs \<Rightarrow> int \<times> jlog_ctx \<times> jlog_fs \<times> jlog_id option \<times> bool" where
  "jlog_resync_index_u3 lg ctx fs =
     (let ctx = ctx\<lparr>last_error := JLOG_ERR_SUCCESS, trace := trace ctx @ [Resync_call lg]\<rparr>;
          (ctx, fs) = jlog_open_reader_u2 lg ctx fs
      in if data ctx = None
         then (-1, ctx\<lparr>last_error := JLOG_ERR_FILE_OPEN, last_errno := sys_errno fs\<rparr>, fs,
               None, False)
         else
           (case jlog_resync_pass lg None ctx fs of
              (Return_early, ctx, fs, lastp, closed) \<Rightarrow> (-1, ctx, fs, lastp, closed)
            | (Goto_finish, ctx, fs, lastp, closed) \<Rightarrow> resync_finish ctx fs lastp closed
            | (Goto_restart index_off, ctx, fs, lastp, closed) \<Rightarrow>
                (let (ctx, fs) = RESTART lg index_off ctx fs in
                 case jlog_resync_pass lg lastp ctx fs of
                   (Return_early, ctx, fs, lastp, closed) \<Rightarrow> (-1, ctx, fs, lastp, closed)
                 | (Goto_finish, ctx, fs, lastp, closed) \<Rightarrow> resync_finish ctx fs lastp closed
                 | (Goto_restart index_off, ctx, fs, lastp, closed) \<Rightarrow>
                     resync_finish (SYS_FAIL JLOG_ERR_IDX_CORRUPT ctx fs) fs lastp closed)))"

text \<open>
  \<open>__jlog_resync_index\<close>: the loop \<open>for (attempts = 0; attempts < 4; attempts++)\<close>, with
  the number of rounds left as its first argument. The truncation of the index to zero
  and its unlock after a repair are recorded in the trace.
\<close>

fun resync_attempts ::
  "nat \<Rightarrow> u32 \<Rightarrow> int \<Rightarrow> jlog_ctx \<Rightarrow> jlog_fs \<Rightarrow> jlog_id option \<Rightarrow> bool
   \<Rightarrow> int \<times> jlog_ctx \<times> jlog_fs \<times> jlog_id option \<times> bool" where
  "resync_attempts 0 lg rv ctx fs lastp closed = (rv, ctx, fs, lastp, closed)"
| "resync_attempts (Suc n) lg rv ctx fs lastp closed =
     (case jlog_resync_index_u3 lg ctx fs of
        (rv, ctx, fs, lastp', closed) \<Rightarrow>
          (let lastp = (case lastp' of None \<Rightarrow> lastp | Some l \<Rightarrow> Some l) in
           if last_error ctx = JLOG_ERR_SUCCESS then (rv, ctx, fs, lastp, closed)
           else if last_error ctx = JLOG_ERR_FILE_OPEN \<or> last_error ctx = JLOG_ERR_IDX_OPEN
           then (rv, ctx, fs, lastp, closed)
           else if lg \<ge> storage_log (ctx_meta ctx fs) then (rv, ctx, fs, lastp, closed)
           else
             (case jlog_repair_datafile lg ctx fs of
                (r, ctx, fs) \<Rightarrow>
                  resync_attempts n lg rv
                    (ctx\<lparr>trace := trace ctx @ [Index_truncate lg 0, Index_unlock lg]\<rparr>)
                    (case index ctx of None \<Rightarrow> fs | Some ih \<Rightarrow> truncate_index ih 0 fs)
                    lastp closed)))"

definition jlog_resync_index_u2 ::
  "u32 \<Rightarrow> jlog_ctx \<Rightarrow> jlog_fs \<Rightarrow> int \<times> jlog_ctx \<times> jlog_fs \<times> jlog_id option \<times> bool" where
  "jlog_resync_index_u2 lg ctx fs = resync_attempts 4 lg (-1) ctx fs None False"


section \<open>Reading a message\<close>

record jlog_message =
  header :: jlog_message_header
  mess_len :: u32
  mess :: bytes

text \<open>
  A read of \<open>n\<close> bytes at \<open>off\<close> through the mapping of the data file: \<open>None\<close> when
  the bytes are not all inside the mapped length (an access that C leaves undefined).
\<close>

definition mmap_read :: "jlog_ctx \<Rightarrow> jlog_fs \<Rightarrow> nat \<Rightarrow> nat \<Rightarrow> bytes option" where
  "mmap_read ctx fs off n =
     (case mmap_len ctx of
        None \<Rightarrow> None
      | Some len \<Rightarrow>
         (case data ctx of
            None \<Rightarrow> None
          | Some h \<Rightarrow>
             (case data_file fs h of
                None \<Rightarrow> None
              | Some f \<Rightarrow> jlog_file_pread (take len f) n off)))"

text \<open>
  How one pass of \<open>jlog_ctx_read_message\<close> from the label \<open>once_more_with_lock\<close> is
  left: by the \<open>return -1\<close> of the close tag, at the label \<open>finish\<close> (with the message
  when there is one, and \<open>with_lock\<close>), or by an access outside the mapping.
\<close>

datatype read_exit =
    Rd_return
  | Rd_finish "jlog_message option" bool
  | Rd_fault

text \<open>
  The two bounds checks are unsigned 64-bit comparisons: \<open>data_off\<close> is a
  \<open>u_int64_t\<close> and \<open>sizeof\<close> has type \<open>size_t\<close>, so
  \<open>ctx->mmap_len - sizeof(jlog_message_header)\<close> and
  \<open>data_off + sizeof(jlog_message_header) + mlen\<close> are computed modulo \<open>2^64\<close>.
\<close>

text \<open>
  The pass is written in three parts. \<open>read_fetch\<close> is its end, from
  \<open>__jlog_mmap_reader\<close> on: \<open>data_off\<close> is the offset read from the index.
\<close>

definition read_fetch ::
  "bool \<Rightarrow> jlog_id \<Rightarrow> u64 \<Rightarrow> jlog_ctx \<Rightarrow> jlog_fs \<Rightarrow> read_exit \<times> jlog_ctx \<times> jlog_fs" where
  "read_fetch with_lock rid data_off ctx fs =
     (let (rv, ctx, fs) = jlog_mmap_reader_u2 (log rid) ctx fs in
      if rv \<noteq> 0 then (Rd_finish None with_lock, SYS_FAIL JLOG_ERR_FILE_READ ctx fs, fs)
      else
        (let maplen = (case mmap_len ctx of None \<Rightarrow> 0 | Some n \<Rightarrow> n) in
         if data_off > (of_nat maplen :: u64) - of_nat hdr_size
         then (Rd_finish None with_lock, SYS_FAIL JLOG_ERR_IDX_CORRUPT ctx fs, fs)
         else
           (case mmap_read ctx fs (unat data_off) hdr_size of
              None \<Rightarrow> (Rd_fault, ctx, fs)
            | Some hb \<Rightarrow>
               (let aligned_header = decode_header hb in
                if data_off + of_nat hdr_size + ucast (mlen aligned_header) > (of_nat maplen :: u64)
                then (Rd_finish None with_lock, SYS_FAIL JLOG_ERR_IDX_CORRUPT ctx fs, fs)
                else
                  (case mmap_read ctx fs (unat data_off + hdr_size)
                          (unat (mlen aligned_header)) of
                     None \<Rightarrow> (Rd_fault, ctx, fs)
                   | Some payload \<Rightarrow>
                       (Rd_finish
                          (Some \<lparr>header = aligned_header, mess_len = mlen aligned_header,
                                 mess = payload\<rparr>)
                          with_lock, ctx, fs))))))"

text \<open>
  \<open>read_lookup\<close> is the middle, from \<open>jlog_file_size(ctx->index)\<close> to the test of the
  close tag: \<open>ih\<close> is the index handle.
\<close>

definition read_lookup ::
  "bool \<Rightarrow> jlog_id \<Rightarrow> u32 \<Rightarrow> jlog_ctx \<Rightarrow> jlog_fs \<Rightarrow> read_exit \<times> jlog_ctx \<times> jlog_fs" where
  "read_lookup with_lock rid ih ctx fs =
     (case index_file fs ih of
        None \<Rightarrow> (Rd_finish None with_lock, SYS_FAIL JLOG_ERR_IDX_SEEK ctx fs, fs)
      | Some idxf \<Rightarrow>
         (let index_len = length idxf in
          if index_len mod 8 \<noteq> 0
          then (Rd_finish None with_lock, SYS_FAIL JLOG_ERR_IDX_CORRUPT ctx fs, fs)
          else if unat (marker rid) * 8 > index_len
          then (Rd_finish None with_lock, SYS_FAIL JLOG_ERR_ILLEGAL_LOGID ctx fs, fs)
          else
            (case jlog_file_pread idxf 8 (unat (marker rid - 1) * 8) of
               None \<Rightarrow> (Rd_finish None with_lock, SYS_FAIL JLOG_ERR_IDX_READ ctx fs, fs)
             | Some b \<Rightarrow>
                (let data_off = dec64 b in
                 if data_off = 0 \<and> marker rid \<noteq> 1 then
                   (if unat (marker rid) * 8 = index_len
                    then (Rd_return, ctx\<lparr>last_error := JLOG_ERR_CLOSE_LOGID,
                                          last_errno := E_NONE\<rparr>, fs)
                    else (Rd_finish None with_lock, SYS_FAIL JLOG_ERR_IDX_CORRUPT ctx fs, fs))
                 else read_fetch with_lock rid data_off ctx fs))))"

definition jlog_read_pass ::
  "bool \<Rightarrow> jlog_id \<Rightarrow> jlog_ctx \<Rightarrow> jlog_fs \<Rightarrow> read_exit \<times> jlog_ctx \<times> jlog_fs" where
  "jlog_read_pass with_lock rid ctx fs =
     (let ctx = ctx\<lparr>last_error := JLOG_ERR_SUCCESS\<rparr> in
      if context_mode ctx \<noteq> JLOG_READ
      then (Rd_finish None with_lock, SYS_FAIL JLOG_ERR_ILLEGAL_WRITE ctx fs, fs)
      else if marker rid < 1
      then (Rd_finish None with_lock, SYS_FAIL JLOG_ERR_ILLEGAL_LOGID ctx fs, fs)
      else
        (let (ctx, fs) = jlog_open_reader_u2 (log rid) ctx fs in
         if data ctx = None then (Rd_finish None with_lock, SYS_FAIL JLOG_ERR_FILE_OPEN ctx fs, fs)
         else
           (let (ctx, fs) = jlog_open_indexer_u2 (log rid) ctx fs in
            case index ctx of
              None \<Rightarrow> (Rd_finish None with_lock, SYS_FAIL JLOG_ERR_IDX_OPEN ctx fs, fs)
            | Some ih \<Rightarrow>
               if with_lock \<and> \<not> can_lock fs
               then (Rd_finish None False, SYS_FAIL JLOG_ERR_LOCK ctx fs, fs)
               else read_lookup with_lock rid ih ctx fs)))"

text \<open>
  \<open>jlog_ctx_read_message\<close>. After a failed pass without the lock the index is
  truncated (on \<open>JLOG_ERR_IDX_CORRUPT\<close>) and resynchronised, and the pass is run again
  with \<open>with_lock = 1\<close>; a pass whose lock fails clears \<open>with_lock\<close> again, so the
  function need not return: the result is \<open>None\<close> then.
\<close>

datatype read_result = Read_ok jlog_message | Read_fail | Read_fault

partial_function (option) read_message_from ::
  "bool \<Rightarrow> jlog_id \<Rightarrow> jlog_ctx \<Rightarrow> jlog_fs \<Rightarrow> (read_result \<times> jlog_ctx \<times> jlog_fs) option" where
  "read_message_from with_lock rid ctx fs =
     (case jlog_read_pass with_lock rid ctx fs of
        (Rd_fault, ctx, fs) \<Rightarrow> Some (Read_fault, ctx, fs)
      | (Rd_return, ctx, fs) \<Rightarrow> Some (Read_fail, ctx, fs)
      | (Rd_finish m with_lock, ctx, fs) \<Rightarrow>
          if last_error ctx = JLOG_ERR_SUCCESS
          then (case m of None \<Rightarrow> Some (Read_fail, ctx, fs) | Some m \<Rightarrow> Some (Read_ok m, ctx, fs))
          else if \<not> with_lock then
            (let fs = (if last_error ctx = JLOG_ERR_IDX_CORRUPT \<and> can_lock fs
                       then (case index ctx of None \<Rightarrow> fs | Some ih \<Rightarrow> truncate_index ih 0 fs)
                       else fs)
             in case jlog_resync_index_u3 (log rid) ctx fs of
                  (rv, ctx, fs, lastp, closed) \<Rightarrow> read_message_from True rid ctx fs)
          else Some (Read_fail, ctx, fs))"

definition jlog_ctx_read_message ::
  "jlog_id \<Rightarrow> jlog_ctx \<Rightarrow> jlog_fs \<Rightarrow> (read_result \<times> jlog_ctx \<times> jlog_fs) option" where
  "jlog_ctx_read_message rid ctx fs = read_message_from False rid ctx fs"


section \<open>Pending readers and the retention sweep\<close>

text \<open>\<open>unlink(2)\<close> on a segment file and on its index file.\<close>

definition unlink_data :: "u32 \<Rightarrow> jlog_fs \<Rightarrow> jlog_fs" where
  "unlink_data lg fs =
     (if data_file fs lg = None then fs\<lparr>sys_errno := ENOENT\<rparr>
      else if \<not> can_unlink fs then fs\<lparr>sys_errno := EACCES\<rparr>
      else fs\<lparr>data_files := AList.delete lg (data_files fs)\<rparr>)"

definition unlink_index :: "u32 \<Rightarrow> jlog_fs \<Rightarrow> jlog_fs" where
  "unlink_index lg fs =
     (if index_file fs lg = None then fs\<lparr>sys_errno := ENOENT\<rparr>
      else if \<not> can_unlink fs then fs\<lparr>sys_errno := EACCES\<rparr>
      else fs\<lparr>index_files := AList.delete lg (index_files fs)\<rparr>)"

definition jlog_unlink_datafile_u2 :: "u32 \<Rightarrow> jlog_ctx \<Rightarrow> jlog_fs \<Rightarrow> int \<times> jlog_ctx \<times> jlog_fs" where
  "jlog_unlink_datafile_u2 lg ctx fs =
     (let ctx = (if current_log ctx = lg
                 then jlog_close_indexer_u2 (jlog_close_reader_u2 ctx) else ctx);
          fs = unlink_data lg fs
      in if \<not> index_name_fits ctx then (-1, ctx, fs)
         else (0, ctx, unlink_index lg fs))"

text \<open>
  The \<open>readdir\<close> loop of \<open>jlog_pending_readers\<close>, over the entries left. \<open>len\<close> is the
  length of the path and its separator; \<open>idlog\<close> is \<open>id.log\<close>, the first four of the
  eight bytes of \<open>id\<close>. The result of the read of a checkpoint file is thrown away, so
  after the read of a file shorter than eight bytes \<open>id\<close> holds the bytes of the file
  over the ones it held before; the four bytes of \<open>id.marker\<close> are not looked at.
\<close>

fun pending_loop ::
  "u32 \<Rightarrow> bool \<Rightarrow> nat \<Rightarrow> (string \<times> bytes) list \<Rightarrow> int \<Rightarrow> bool \<Rightarrow> u32 \<Rightarrow> u32 \<Rightarrow> int \<times> u32" where
  "pending_loop lg lk len [] readers seen earliest idlog = (readers, earliest)"
| "pending_loop lg lk len ((d_name, cp) # ents) readers seen earliest idlog =
     (if is_checkpoint_entry d_name \<and> \<not> len + length d_name + 1 > MAXPATHLEN \<and> lk then
        (let idlog = dec32 (take 4 (jlog_file_pread_buf cp 8 0 (enc32 idlog @ enc32 0)));
             earliest = (if \<not> seen then idlog
                         else if idlog < earliest then idlog else earliest)
         in pending_loop lg lk len ents (if idlog \<le> lg then readers + 1 else readers)
              True earliest idlog)
      else pending_loop lg lk len ents readers seen earliest idlog)"

text \<open>
  \<open>jlog_pending_readers\<close>: the value returned and \<open>*earliest_out\<close> (\<open>None\<close> when
  nothing is stored there).
\<close>

definition jlog_pending_readers :: "u32 \<Rightarrow> jlog_ctx \<Rightarrow> jlog_fs \<Rightarrow> int \<times> u32 option" where
  "jlog_pending_readers lg ctx fs =
     (if \<not> can_opendir fs then (-1, None)
      else if length (path ctx) + 2 > MAXPATHLEN then (-1, None)
      else (case pending_loop lg (can_lock fs) (length (path ctx) + 1) (named_files fs)
                   0 False 0 (stack_garbage fs) of
              (readers, earliest) \<Rightarrow> (readers, Some earliest)))"

definition jlog_pending_readers_u2 :: "u32 \<Rightarrow> jlog_ctx \<Rightarrow> jlog_fs \<Rightarrow> int" where
  "jlog_pending_readers_u2 lg ctx fs = fst (jlog_pending_readers lg ctx fs)"

section \<open>Checkpoints\<close>

text \<open>
  \<open>__jlog_open_named_checkpoint\<close>, with the flags 0 (\<open>excl = False\<close>) or
  \<open>O_CREAT|O_EXCL\<close> (\<open>excl = True\<close>).
\<close>

definition jlog_open_named_checkpoint_u2 ::
  "bytes \<Rightarrow> bool \<Rightarrow> jlog_fs \<Rightarrow> string option \<times> jlog_fs" where
  "jlog_open_named_checkpoint_u2 cpname excl fs =
     (case named_file fs (checkpoint_entry cpname) of
        None \<Rightarrow>
          (if \<not> excl then (None, fs\<lparr>sys_errno := ENOENT\<rparr>)
           else if \<not> can_write fs then (None, fs\<lparr>sys_errno := EACCES\<rparr>)
           else (Some (checkpoint_entry cpname), set_named_file (checkpoint_entry cpname) [] fs))
      | Some cp \<Rightarrow>
          (if excl then (None, fs\<lparr>sys_errno := EEXIST\<rparr>)
           else (Some (checkpoint_entry cpname), fs)))"

text \<open>
  The opening lines that \<open>jlog_get_checkpoint\<close> and \<open>__jlog_set_checkpoint\<close> share:
  the handle \<open>f\<close>, which is the context's own for the context's subscriber.
\<close>

definition checkpoint_handle ::
  "bytes \<Rightarrow> jlog_ctx \<Rightarrow> jlog_fs \<Rightarrow> string option \<times> jlog_ctx \<times> jlog_fs" where
  "checkpoint_handle s ctx fs =
     (if subscriber_name ctx \<noteq> None \<and> subscriber_name ctx = Some (strdup s) then
        (if checkpoint ctx = None
         then (case jlog_open_named_checkpoint_u2 s False fs of
                 (f, fs) \<Rightarrow> (f, ctx\<lparr>checkpoint := f\<rparr>, fs))
         else (checkpoint ctx, ctx, fs))
      else (case jlog_open_named_checkpoint_u2 s False fs of (f, fs) \<Rightarrow> (f, ctx, fs)))"

definition decode_id :: "bytes \<Rightarrow> jlog_id" where
  "decode_id b = \<lparr>log = dec32 (take 4 b), marker = dec32 (take 4 (drop 4 b))\<rparr>"

definition encode_id :: "jlog_id \<Rightarrow> bytes" where
  "encode_id rid = enc32 (log rid) @ enc32 (marker rid)"

text \<open>\<open>jlog_get_checkpoint\<close>: the value returned and \<open>*id\<close> when it is stored.\<close>

definition jlog_get_checkpoint ::
  "bytes \<Rightarrow> jlog_ctx \<Rightarrow> jlog_fs \<Rightarrow> int \<times> jlog_id option \<times> jlog_ctx \<times> jlog_fs" where
  "jlog_get_checkpoint s ctx fs =
     (case checkpoint_handle s ctx fs of
        (None, ctx, fs) \<Rightarrow> (-1, None, ctx, fs)
      | (Some f, ctx, fs) \<Rightarrow>
          if \<not> can_lock fs then (-1, None, ctx, fs)
          else (case named_file fs f of
                  None \<Rightarrow> (-1, None, ctx, fs)
                | Some cp \<Rightarrow>
                    (case jlog_file_pread cp 8 0 of
                       None \<Rightarrow> (-1, None, ctx, fs)
                     | Some b \<Rightarrow> (0, Some (decode_id b), ctx, fs))))"

text \<open>The loop \<open>for (log = old_id.log; log < id->log; log++)\<close> over the ids left.\<close>

fun checkpoint_sweep :: "u32 list \<Rightarrow> jlog_ctx \<Rightarrow> jlog_fs \<Rightarrow> jlog_ctx \<times> jlog_fs" where
  "checkpoint_sweep [] ctx fs = (ctx, fs)"
| "checkpoint_sweep (lg # logs) ctx fs =
     (if jlog_pending_readers_u2 lg ctx fs = 0
      then (case jlog_unlink_datafile_u2 lg ctx fs of
              (r, ctx, fs) \<Rightarrow> checkpoint_sweep logs ctx fs)
      else checkpoint_sweep logs ctx fs)"

definition jlog_set_checkpoint_u2 ::
  "bytes \<Rightarrow> jlog_id \<Rightarrow> jlog_ctx \<Rightarrow> jlog_fs \<Rightarrow> int \<times> jlog_ctx \<times> jlog_fs" where
  "jlog_set_checkpoint_u2 s rid ctx fs =
     (case checkpoint_handle s ctx fs of
        (None, ctx, fs) \<Rightarrow> (-1, ctx, fs)
      | (Some f, ctx, fs) \<Rightarrow>
          if \<not> can_lock fs then (-1, ctx, fs)
          else
            (case named_file fs f of
               None \<Rightarrow> (-1, ctx, fs)
             | Some cp \<Rightarrow>
                (case (if length cp = 0 then Some (log rid)
                       else map_option (\<lambda>b. dec32 (take 4 b)) (jlog_file_pread cp 8 0)) of
                   None \<Rightarrow> (-1, ctx, fs)
                 | Some old_log \<Rightarrow>
                     if \<not> can_write fs
                     then (-1, ctx\<lparr>last_error := JLOG_ERR_FILE_WRITE\<rparr>, fs)
                     else
                       (case checkpoint_sweep (map of_nat [unat old_log..<unat (log rid)]) ctx
                               (set_named_file f (jlog_file_pwrite cp (encode_id rid) 0) fs) of
                          (ctx, fs) \<Rightarrow> (0, ctx, fs)))))"

text \<open>
  \<open>jlog_ctx_read_checkpoint\<close>. The context of a reader has a subscriber name; the empty
  name stands in where the code would pass a null pointer on.
\<close>

definition jlog_ctx_read_checkpoint :: "jlog_id \<Rightarrow> jlog_ctx \<Rightarrow> jlog_fs \<Rightarrow> int \<times> jlog_ctx \<times> jlog_fs" where
  "jlog_ctx_read_checkpoint chkpt ctx fs =
     (let ctx = ctx\<lparr>last_error := JLOG_ERR_SUCCESS\<rparr> in
      if context_mode ctx \<noteq> JLOG_READ
      then (-1, ctx\<lparr>last_error := JLOG_ERR_ILLEGAL_CHECKPOINT, last_errno := EPERM\<rparr>, fs)
      else (case jlog_set_checkpoint_u2 (case subscriber_name ctx of None \<Rightarrow> [] | Some n \<Rightarrow> n)
                   chkpt ctx fs of
              (r, ctx, fs) \<Rightarrow>
                if r \<noteq> 0
                then (-1, ctx\<lparr>last_error := JLOG_ERR_CHECKPOINT, last_errno := E_NONE\<rparr>, fs)
                else (0, ctx, fs)))"

section \<open>The metastore\<close>

text \<open>
  \<open>__jlog_restore_metastore\<close>: the metastore file is mapped read-write and shared. A
  file of 12 bytes, the old format, gets four zero bytes first.
\<close>

definition jlog_restore_metastore_u2 :: "bool \<Rightarrow> jlog_ctx \<Rightarrow> jlog_fs \<Rightarrow> int \<times> jlog_ctx \<times> jlog_fs" where
  "jlog_restore_metastore_u2 ilocked ctx fs =
     (if meta_is_mapped ctx then (0, ctx, fs)
      else if \<not> ilocked \<and> \<not> (metastore ctx \<and> can_lock fs)
      then (-1, ctx\<lparr>last_error := JLOG_ERR_LOCK\<rparr>, fs)
      else
        (case (if metastore ctx then metastore_file fs else None) of
           None \<Rightarrow> (-1, ctx\<lparr>last_error := JLOG_ERR_OPEN\<rparr>, fs)
         | Some b \<Rightarrow>
             if b = [] then (-1, ctx\<lparr>last_error := JLOG_ERR_OPEN\<rparr>, fs)
             else
               (let (b, fs) = (if length b = 12 \<and> can_write fs
                               then (jlog_file_pwrite b (enc32 0) 12,
                                     fs\<lparr>metastore_file := Some (jlog_file_pwrite b (enc32 0) 12)\<rparr>)
                               else (b, fs))
                in if length b \<noteq> 16 then (-1, ctx\<lparr>last_error := JLOG_ERR_OPEN\<rparr>, fs)
                   else (let ctx = ctx\<lparr>meta_is_mapped := True\<rparr>
                         in (0, ctx\<lparr>pre_init := (pre_init ctx)
                                      \<lparr>hdr_magic := hdr_magic (ctx_meta ctx fs)\<rparr>\<rparr>, fs)))))"

text \<open>
  \<open>__jlog_save_metastore\<close>: a mapped metastore is synchronised (the file has the bytes
  already), one that is not mapped is written from \<open>ctx->pre_init\<close>.
\<close>

definition jlog_save_metastore_u2 :: "bool \<Rightarrow> jlog_ctx \<Rightarrow> jlog_fs \<Rightarrow> int \<times> jlog_ctx \<times> jlog_fs" where
  "jlog_save_metastore_u2 ilocked ctx fs =
     (if \<not> ilocked \<and> \<not> (metastore ctx \<and> can_lock fs)
      then (-1, ctx\<lparr>last_error := JLOG_ERR_LOCK\<rparr>, fs)
      else if meta_is_mapped ctx then
        (if can_write fs then (0, ctx, fs)
         else (-1, ctx\<lparr>last_error := JLOG_ERR_FILE_WRITE\<rparr>, fs))
      else if \<not> (metastore ctx \<and> can_write fs)
      then (-1, ctx\<lparr>last_error := JLOG_ERR_FILE_WRITE\<rparr>, fs)
      else (0, ctx,
            fs\<lparr>metastore_file :=
                 Some (jlog_file_pwrite (case metastore_file fs of None \<Rightarrow> [] | Some b \<Rightarrow> b)
                         (encode_meta (pre_init ctx)) 0)\<rparr>))"

text \<open>
  \<open>__jlog_open_metastore\<close>: the file is opened with \<open>O_CREAT\<close>. The name is the path,
  the separator, \<open>metastore\<close> and its terminator.
\<close>

definition jlog_open_metastore_u2 :: "jlog_ctx \<Rightarrow> jlog_fs \<Rightarrow> int \<times> jlog_ctx \<times> jlog_fs" where
  "jlog_open_metastore_u2 ctx fs =
     (if length (path ctx) + 1 + 9 + 1 > MAXPATHLEN
      then (-1, ctx\<lparr>last_errno := EINVAL, last_error := JLOG_ERR_CREATE_META\<rparr>, fs)
      else if \<not> dir_exists fs
      then (-1, ctx\<lparr>metastore := False, last_errno := ENOENT,
                     last_error := JLOG_ERR_CREATE_META\<rparr>, fs\<lparr>sys_errno := ENOENT\<rparr>)
      else if metastore_file fs = None \<and> \<not> can_write fs
      then (-1, ctx\<lparr>metastore := False, last_errno := EACCES,
                     last_error := JLOG_ERR_CREATE_META\<rparr>, fs\<lparr>sys_errno := EACCES\<rparr>)
      else (0, ctx\<lparr>metastore := True\<rparr>,
            (if metastore_file fs = None then fs\<lparr>metastore_file := Some []\<rparr> else fs)))"

text \<open>A store to \<open>ctx->meta->storage_log\<close>: into the mapping, or into \<open>pre_init\<close>.\<close>

definition set_storage_log :: "u32 \<Rightarrow> jlog_ctx \<Rightarrow> jlog_fs \<Rightarrow> jlog_ctx \<times> jlog_fs" where
  "set_storage_log v ctx fs =
     (if meta_is_mapped ctx
      then (ctx, fs\<lparr>metastore_file :=
                     Some (jlog_file_pwrite (case metastore_file fs of None \<Rightarrow> [] | Some b \<Rightarrow> b)
                             (enc32 v) 0)\<rparr>)
      else (ctx\<lparr>pre_init := (pre_init ctx)\<lparr>storage_log := v\<rparr>\<rparr>, fs))"

section \<open>The writer\<close>

text \<open>A segment file opened with \<open>O_CREAT\<close>.\<close>

definition open_data_creat :: "u32 \<Rightarrow> jlog_fs \<Rightarrow> u32 option \<times> jlog_fs" where
  "open_data_creat lg fs =
     (case data_file fs lg of
        None \<Rightarrow> (if can_write fs then (Some lg, set_data_file lg [] fs)
                  else (None, fs\<lparr>sys_errno := EACCES\<rparr>))
      | Some f \<Rightarrow> (Some lg, fs))"

definition jlog_open_writer_u2 :: "jlog_ctx \<Rightarrow> jlog_fs \<Rightarrow> jlog_ctx \<times> jlog_fs" where
  "jlog_open_writer_u2 ctx fs =
     (if data ctx \<noteq> None then (ctx, fs)
      else if \<not> (metastore ctx \<and> can_lock fs) then (SYS_FAIL JLOG_ERR_LOCK ctx fs, fs)
      else
        (case jlog_restore_metastore_u2 True ctx fs of
           (x, ctx, fs) \<Rightarrow>
             if x \<noteq> 0 then (SYS_FAIL JLOG_ERR_META_OPEN ctx fs, fs)
             else
               (let ctx = ctx\<lparr>current_log := storage_log (ctx_meta ctx fs)\<rparr> in
                case open_data_creat (current_log ctx) fs of
                  (None, fs) \<Rightarrow> (ctx\<lparr>data := None, last_error := JLOG_ERR_FILE_OPEN\<rparr>, fs)
                | (Some h, fs) \<Rightarrow> (ctx\<lparr>data := Some h, last_error := JLOG_ERR_SUCCESS\<rparr>, fs))))"

definition jlog_close_writer_u2 :: "jlog_ctx \<Rightarrow> jlog_ctx" where
  "jlog_close_writer_u2 ctx = ctx\<lparr>data := None\<rparr>"

text \<open>
  \<open>__jlog_metastore_atomic_increment\<close>. The part before the label \<open>finish\<close> gives the
  context and the directory; \<open>finish\<close> unlocks the metastore, takes \<open>current_log\<close> from
  the metastore and returns by \<open>last_error\<close>, which the function does not clear first.
\<close>

definition atomic_increment_body :: "jlog_ctx \<Rightarrow> jlog_fs \<Rightarrow> jlog_ctx \<times> jlog_fs" where
  "atomic_increment_body ctx fs =
     (if data ctx \<noteq> None then (SYS_FAIL JLOG_ERR_NOT_SUPPORTED ctx fs, fs)
      else if \<not> (metastore ctx \<and> can_lock fs) then (SYS_FAIL JLOG_ERR_LOCK ctx fs, fs)
      else
        (case jlog_restore_metastore_u2 True ctx fs of
           (r, ctx, fs) \<Rightarrow>
             if r \<noteq> 0 then (SYS_FAIL JLOG_ERR_META_OPEN ctx fs, fs)
             else if storage_log (ctx_meta ctx fs) = current_log ctx then
               (let ctx = ctx\<lparr>current_log := current_log ctx + 1\<rparr> in
                case open_data_creat (current_log ctx) fs of
                  (h, fs) \<Rightarrow>
                    (case set_storage_log (current_log ctx) (ctx\<lparr>data := h\<rparr>) fs of
                       (ctx, fs) \<Rightarrow>
                         (case jlog_save_metastore_u2 True ctx fs of
                            (r, ctx, fs) \<Rightarrow>
                              if r \<noteq> 0 then (SYS_FAIL JLOG_ERR_META_OPEN ctx fs, fs)
                              else (ctx, fs))))
             else (ctx, fs)))"

definition jlog_metastore_atomic_increment_u2 :: "jlog_ctx \<Rightarrow> jlog_fs \<Rightarrow> int \<times> jlog_ctx \<times> jlog_fs" where
  "jlog_metastore_atomic_increment_u2 ctx fs =
     (case atomic_increment_body ctx fs of
        (ctx, fs) \<Rightarrow>
          (let ctx = ctx\<lparr>current_log := storage_log (ctx_meta ctx fs)\<rparr>
           in ((if last_error ctx = JLOG_ERR_SUCCESS then 0 else -1), ctx, fs)))"

text \<open>
  \<open>jlog_ctx_write_message\<close> from the label \<open>begin\<close>. \<open>tv\<close> is the time stamp:
  \<open>*when\<close>, or what \<open>gettimeofday\<close> gives. The bytes written are the first
  \<open>mess_len\<close> bytes of the buffer \<open>mess\<close>. A full segment makes the function rotate and
  start again, so it need not return: the result is \<open>None\<close> then.
\<close>

partial_function (option) write_message_from ::
  "jlog_message \<Rightarrow> u32 \<times> u32 \<Rightarrow> jlog_ctx \<Rightarrow> jlog_fs \<Rightarrow> (int \<times> jlog_ctx \<times> jlog_fs) option" where
  "write_message_from m tv ctx fs =
     (case jlog_open_writer_u2 ctx fs of
        (ctx, fs) \<Rightarrow>
          (case data ctx of
             None \<Rightarrow> Some (-1, ctx\<lparr>last_error := JLOG_ERR_FILE_OPEN,
                                    last_errno := sys_errno fs\<rparr>, fs)
           | Some h \<Rightarrow>
               if \<not> can_lock fs
               then Some (-1, ctx\<lparr>last_error := JLOG_ERR_LOCK, last_errno := sys_errno fs\<rparr>, fs)
               else
                 (case data_file fs h of
                    None \<Rightarrow> Some (-1, SYS_FAIL JLOG_ERR_FILE_SEEK ctx fs, fs)
                  | Some f \<Rightarrow>
                      if unat (unit_limit (ctx_meta ctx fs)) \<le> length f then
                        (case jlog_metastore_atomic_increment_u2 (jlog_close_writer_u2 ctx) fs of
                           (r, ctx, fs) \<Rightarrow> write_message_from m tv ctx fs)
                      else if \<not> can_write fs
                      then Some (-1, SYS_FAIL JLOG_ERR_FILE_WRITE ctx fs, fs)
                      else
                        (let hdr = \<lparr>reserved = hdr_magic (ctx_meta ctx fs), tv_sec = fst tv,
                                    tv_usec = snd tv, mlen = mess_len m\<rparr>;
                             f = jlog_file_pwrite f (encode_header hdr) (length f);
                             f = jlog_file_pwrite f (take (unat (mess_len m)) (mess m)) (length f);
                             fs = set_data_file h f fs
                         in if unat (unit_limit (ctx_meta ctx fs)) \<le> length f then
                              (case jlog_metastore_atomic_increment_u2
                                      (jlog_close_writer_u2 ctx) fs of
                                 (r, ctx, fs) \<Rightarrow> Some (0, ctx, fs))
                            else Some ((if last_error ctx = JLOG_ERR_SUCCESS then 0 else -1),
                                       ctx, fs)))))"

definition jlog_ctx_write_message ::
  "jlog_message \<Rightarrow> u32 \<times> u32 \<Rightarrow> jlog_ctx \<Rightarrow> jlog_fs \<Rightarrow> (int \<times> jlog_ctx \<times> jlog_fs) option" where
  "jlog_ctx_write_message m tv ctx fs =
     (let ctx = ctx\<lparr>last_error := JLOG_ERR_SUCCESS\<rparr> in
      if context_mode ctx \<noteq> JLOG_APPEND
      then Some (-1, ctx\<lparr>last_error := JLOG_ERR_ILLEGAL_WRITE, last_errno := EPERM\<rparr>, fs)
      else write_message_from m tv ctx fs)"

text \<open>
  \<open>jlog_ctx_write\<close>: \<open>len\<close> is the length of the buffer, and \<open>m.mess_len = len\<close>
  keeps its low 32 bits. The header pointer of \<open>m\<close> is not set and not used.
\<close>

definition jlog_ctx_write ::
  "bytes \<Rightarrow> u32 \<times> u32 \<Rightarrow> jlog_ctx \<Rightarrow> jlog_fs \<Rightarrow> (int \<times> jlog_ctx \<times> jlog_fs) option" where
  "jlog_ctx_write buf tv ctx fs =
     jlog_ctx_write_message
       \<lparr>header = \<lparr>reserved = 0, tv_sec = 0, tv_usec = 0, mlen = 0\<rparr>,
        mess_len = of_nat (length buf), mess = buf\<rparr> tv ctx fs"

section \<open>Finding the records to read\<close>

text \<open>
  \<open>jlog_ctx_first_log_id\<close>. The directory entries of eight hex digits are the segment
  files, which the model keys by the id that the loop computes from the name; an entry
  kept under its name counts too when it spells eight hex digits (of either case).
\<close>

definition hex_digit :: "char \<Rightarrow> u32 option" where
  "hex_digit c =
     (let n = (of_char c :: nat) in
      if of_char (CHR ''0'') \<le> n \<and> n \<le> of_char (CHR ''9'')
      then Some (of_nat (n - of_char (CHR ''0'')))
      else if of_char (CHR ''a'') \<le> n \<and> n \<le> of_char (CHR ''f'')
      then Some (of_nat (n - of_char (CHR ''a'') + 10))
      else if of_char (CHR ''A'') \<le> n \<and> n \<le> of_char (CHR ''F'')
      then Some (of_nat (n - of_char (CHR ''A'') + 10))
      else None)"

fun parse_log_name :: "string \<Rightarrow> u32 \<Rightarrow> u32 option" where
  "parse_log_name [] lg = Some lg"
| "parse_log_name (c # cs) lg =
     (case hex_digit c of
        None \<Rightarrow> None
      | Some d \<Rightarrow> parse_log_name cs (push_bit 4 lg OR d))"

definition dir_log_ids :: "jlog_fs \<Rightarrow> u32 list" where
  "dir_log_ids fs =
     map fst (data_files fs)
     @ List.map_filter (\<lambda>(d_name, f). if length d_name = 8 then parse_log_name d_name 0 else None)
         (named_files fs)"

definition jlog_ctx_first_log_id :: "jlog_ctx \<Rightarrow> jlog_fs \<Rightarrow> int \<times> jlog_id \<times> jlog_ctx" where
  "jlog_ctx_first_log_id ctx fs =
     (let ctx = ctx\<lparr>last_error := JLOG_ERR_SUCCESS\<rparr> in
      if \<not> can_opendir fs then (-1, \<lparr>log = 0xffffffff, marker = 0\<rparr>, ctx)
      else (0, \<lparr>log = (if dir_log_ids fs = [] then 0
                         else fold (\<lambda>lg m. if lg < m then lg else m) (dir_log_ids fs) 0xffffffff),
                 marker = 0\<rparr>, ctx))"

text \<open>
  \<open>stat(2)\<close> on the segment file after \<open>start->log\<close> and on its index file: \<open>None\<close>
  when it fails (with \<open>ENOENT\<close>, the one failure of the model), the size otherwise.
\<close>

definition stat_data :: "u32 \<Rightarrow> jlog_fs \<Rightarrow> nat option" where
  "stat_data lg fs = map_option length (data_file fs lg)"

definition stat_index :: "u32 \<Rightarrow> jlog_fs \<Rightarrow> nat option" where
  "stat_index lg fs = map_option length (index_file fs lg)"

text \<open>
  \<open>__jlog_find_first_log_after\<close> from the label \<open>attempt\<close>: the value returned,
  \<open>*start\<close>, \<open>*finish\<close> (\<open>None\<close> when nothing is stored there), the context and
  the directory.
\<close>

partial_function (option) find_first_log_from ::
  "jlog_id \<Rightarrow> jlog_ctx \<Rightarrow> jlog_fs \<Rightarrow> (int \<times> jlog_id \<times> jlog_id option \<times> jlog_ctx \<times> jlog_fs) option" where
  "find_first_log_from start ctx fs =
     (case jlog_resync_index_u2 (log start) ctx fs of
        (rv, ctx, fs, lastp, closed) \<Rightarrow>
          if rv \<noteq> 0 then
            (if last_error ctx = JLOG_ERR_FILE_OPEN \<and> last_errno ctx = ENOENT then
               (let ferr = stat_data (log start + 1) fs;
                    fs = (if ferr = None then fs\<lparr>sys_errno := ENOENT\<rparr> else fs);
                    ctx = ctx\<lparr>last_error := JLOG_ERR_SUCCESS\<rparr>
                in if log start \<ge> storage_log (ctx_meta ctx fs)
                      \<or> (ferr = None \<and> sys_errno fs \<noteq> ENOENT)
                   then Some (0, start, Some start, ctx, fs)
                   else
                     (case jlog_resync_index_u2 (log start + 1) ctx fs of
                        (rv, ctx, fs, lastp, closed) \<Rightarrow>
                          if rv \<noteq> 0 then Some (0, start, Some start, ctx, fs)
                          else if \<not> index_name_fits ctx then Some (-1, start, None, ctx, fs)
                          else
                            (case stat_index (log start + 1) fs of
                               None \<Rightarrow> Some (0, start, Some start, ctx, fs\<lparr>sys_errno := ENOENT\<rparr>)
                             | Some sz \<Rightarrow>
                                 if sz = 0 then Some (0, start, Some start, ctx, fs)
                                 else find_first_log_from
                                        \<lparr>log = log start + 1, marker = 0\<rparr> ctx fs)))
             else Some (-1, start, None, ctx, fs))
          else
            (let lst = (case lastp of None \<Rightarrow> start | Some l \<Rightarrow> l);
                 start = (if log lst = log start \<and> marker lst < marker start then lst else start)
             in if start = lst \<and> closed then
                  (let ferr = stat_data (log start + 1) fs;
                       fs = (if ferr = None then fs\<lparr>sys_errno := ENOENT\<rparr> else fs)
                   in if ferr = None \<and> log start < storage_log (ctx_meta ctx fs) - 1
                      then Some (0, \<lparr>log = log start + 2, marker = 0\<rparr>,
                                 Some \<lparr>log = log start + 2, marker = 0\<rparr>, ctx, fs)
                      else if log start \<ge> storage_log (ctx_meta ctx fs) \<or> ferr = None
                              \<or> ferr = Some 0
                      then Some (0, start, Some start, ctx, fs)
                      else
                        (case jlog_resync_index_u2 (log start + 1) ctx fs of
                           (rv, ctx, fs, lastp, closed) \<Rightarrow>
                             if rv \<noteq> 0 then Some (0, start, Some start, ctx, fs)
                             else if \<not> index_name_fits ctx then Some (-1, start, None, ctx, fs)
                             else
                               (case stat_index (log start + 1) fs of
                                  None \<Rightarrow> Some (0, start, Some start, ctx, fs\<lparr>sys_errno := ENOENT\<rparr>)
                                | Some sz \<Rightarrow>
                                    if sz = 0 then Some (0, start, Some start, ctx, fs)
                                    else find_first_log_from
                                           \<lparr>log = log start + 1, marker = 0\<rparr> ctx fs)))
                else Some (0, start, Some lst, ctx, fs)))"

definition jlog_find_first_log_after_u2 ::
  "jlog_id \<Rightarrow> jlog_ctx \<Rightarrow> jlog_fs \<Rightarrow> (int \<times> jlog_id \<times> jlog_id option \<times> jlog_ctx \<times> jlog_fs) option" where
  "jlog_find_first_log_after_u2 chkpt ctx fs = find_first_log_from chkpt ctx fs"

text \<open>
  \<open>jlog_ctx_read_interval\<close>: the value returned, \<open>*start\<close> and \<open>*finish\<close>, the
  context and the directory. \<open>count\<close> is the difference of two 32-bit markers stored in
  an \<open>int\<close>. \<open>read_interval_window\<close> is the part after \<open>__jlog_find_first_log_after\<close>
  has returned 0.
\<close>

definition read_interval_window ::
  "bytes \<Rightarrow> jlog_id \<Rightarrow> jlog_id \<Rightarrow> jlog_id \<Rightarrow> jlog_ctx \<Rightarrow> jlog_fs
   \<Rightarrow> int \<times> jlog_id \<times> jlog_id \<times> jlog_ctx \<times> jlog_fs" where
  "read_interval_window sub chkpt start finish ctx fs =
     (let start = start\<lparr>marker := (if log start \<noteq> log chkpt then 0 else marker chkpt)\<rparr> in
      case (if log start \<noteq> log chkpt then jlog_set_checkpoint_u2 sub start ctx fs
            else (0, ctx, fs)) of
        (r, ctx, fs) \<Rightarrow>
          if r \<noteq> 0 then (-1, start, finish, SYS_FAIL JLOG_ERR_CHECKPOINT ctx fs, fs)
          else
            (let count = sint (marker finish - marker start);
                 start = (if marker finish > marker start
                          then start\<lparr>marker := marker start + 1\<rparr> else start)
             in if count < 0 then
                  (case jlog_set_checkpoint_u2 sub finish ctx fs of
                     (r, ctx, fs) \<Rightarrow>
                       if r \<noteq> 0
                       then (-1, start, finish, SYS_FAIL JLOG_ERR_CHECKPOINT ctx fs, fs)
                       else
                         (case jlog_get_checkpoint sub ctx fs of
                            (r, None, ctx, fs) \<Rightarrow>
                              (-1, start, finish, SYS_FAIL JLOG_ERR_INVALID_SUBSCRIBER ctx fs, fs)
                          | (r, Some c, ctx, fs) \<Rightarrow>
                              (0, start, finish,
                               jlog_munmap_reader_u2 (ctx\<lparr>last_error := JLOG_ERR_SUCCESS\<rparr>), fs)))
                else ((if last_error ctx = JLOG_ERR_SUCCESS then count else -1),
                      start, finish, jlog_munmap_reader_u2 ctx, fs)))"

definition jlog_ctx_read_interval ::
  "jlog_ctx \<Rightarrow> jlog_fs \<Rightarrow> (int \<times> jlog_id \<times> jlog_id \<times> jlog_ctx \<times> jlog_fs) option" where
  "jlog_ctx_read_interval ctx fs =
     (let ctx = ctx\<lparr>last_error := JLOG_ERR_SUCCESS\<rparr>;
          zero = \<lparr>log = 0, marker = 0\<rparr>;
          sub = (case subscriber_name ctx of None \<Rightarrow> [] | Some n \<Rightarrow> n)
      in if context_mode ctx \<noteq> JLOG_READ
         then Some (-1, zero, zero,
                    ctx\<lparr>last_error := JLOG_ERR_ILLEGAL_WRITE, last_errno := EPERM\<rparr>, fs)
         else
           (case jlog_restore_metastore_u2 False ctx fs of
              (r, ctx, fs) \<Rightarrow>
                (case jlog_get_checkpoint sub ctx fs of
                   (r, None, ctx, fs) \<Rightarrow>
                     Some (-1, zero, zero, SYS_FAIL JLOG_ERR_INVALID_SUBSCRIBER ctx fs, fs)
                 | (r, Some chkpt, ctx, fs) \<Rightarrow>
                     (case jlog_find_first_log_after_u2 chkpt ctx fs of
                        None \<Rightarrow> None
                      | Some (r, start, None, ctx, fs) \<Rightarrow>
                          Some ((if last_error ctx = JLOG_ERR_SUCCESS then 0 else -1),
                                start, start, ctx, fs)
                      | Some (r, start, Some finish, ctx, fs) \<Rightarrow>
                          if r \<noteq> 0
                          then Some ((if last_error ctx = JLOG_ERR_SUCCESS then 0 else -1),
                                     start, finish, ctx, fs)
                          else Some (read_interval_window sub chkpt start finish ctx fs)))))"

section \<open>Creating and opening a journal\<close>

text \<open>
  Modelled from the spec: the defaults of \<open>jlog_new\<close> are declared outside \<open>src/\<close>.
  The specification gives \<open>unit_limit = 4 * 2^20\<close> and \<open>safety = synced\<close>, and it
  gives no value for the magic, a fixed constant: the model takes \<open>0x663A7318\<close>.
  \<open>MAXLOGPATHLEN\<close> is declared outside \<open>src/\<close> too: the model takes the longest path
  that leaves room for a segment name and the index extension.
\<close>

definition JLOG_SAFE :: u32 where
  "JLOG_SAFE = 2"

definition DEFAULT_UNIT_LIMIT :: u32 where
  "DEFAULT_UNIT_LIMIT = 4 * 1024 * 1024"

definition DEFAULT_HDR_MAGIC :: u32 where
  "DEFAULT_HDR_MAGIC = 0x663A7318"

definition MAXLOGPATHLEN :: nat where
  "MAXLOGPATHLEN = MAXPATHLEN - 13"

definition jlog_new :: "string \<Rightarrow> jlog_ctx" where
  "jlog_new p =
     \<lparr>metastore = False, context_mode = JLOG_NEW, last_error = JLOG_ERR_SUCCESS,
      last_errno = E_NONE, current_log = 0, data = None, index = None, checkpoint = None,
      mmap_len = None, subscriber_name = None, path = p, meta_is_mapped = False,
      pre_init = \<lparr>storage_log = 0, unit_limit = DEFAULT_UNIT_LIMIT, safety = JLOG_SAFE,
                  hdr_magic = DEFAULT_HDR_MAGIC\<rparr>,
      trace = []\<rparr>"

text \<open>The label \<open>finish\<close> of the two open functions.\<close>

definition open_finish :: "jlog_ctx \<Rightarrow> jlog_fs \<Rightarrow> int \<times> jlog_ctx \<times> jlog_fs" where
  "open_finish ctx fs =
     (if last_error ctx = JLOG_ERR_SUCCESS then (0, ctx, fs)
      else (-1, ctx\<lparr>context_mode := JLOG_INVALID\<rparr>, fs))"

definition jlog_ctx_open_writer :: "jlog_ctx \<Rightarrow> jlog_fs \<Rightarrow> int \<times> jlog_ctx \<times> jlog_fs" where
  "jlog_ctx_open_writer ctx fs =
     (let ctx = ctx\<lparr>last_error := JLOG_ERR_SUCCESS\<rparr> in
      if context_mode ctx \<noteq> JLOG_NEW then (-1, ctx\<lparr>last_error := JLOG_ERR_ILLEGAL_OPEN\<rparr>, fs)
      else
        (let ctx = ctx\<lparr>context_mode := JLOG_APPEND\<rparr> in
         if \<not> dir_exists fs
         then open_finish (SYS_FAIL JLOG_ERR_OPEN ctx (fs\<lparr>sys_errno := ENOENT\<rparr>))
                (fs\<lparr>sys_errno := ENOENT\<rparr>)
         else
           (case jlog_open_metastore_u2 ctx fs of
              (r, ctx, fs) \<Rightarrow>
                if r \<noteq> 0 then open_finish (SYS_FAIL JLOG_ERR_META_OPEN ctx fs) fs
                else
                  (case jlog_restore_metastore_u2 False ctx fs of
                     (r, ctx, fs) \<Rightarrow>
                       if r \<noteq> 0 then open_finish (SYS_FAIL JLOG_ERR_META_OPEN ctx fs) fs
                       else open_finish ctx fs))))"

definition jlog_ctx_open_reader :: "bytes \<Rightarrow> jlog_ctx \<Rightarrow> jlog_fs \<Rightarrow> int \<times> jlog_ctx \<times> jlog_fs" where
  "jlog_ctx_open_reader subscriber ctx fs =
     (let ctx = ctx\<lparr>last_error := JLOG_ERR_SUCCESS\<rparr> in
      if context_mode ctx \<noteq> JLOG_NEW then (-1, ctx\<lparr>last_error := JLOG_ERR_ILLEGAL_OPEN\<rparr>, fs)
      else
        (let ctx = ctx\<lparr>context_mode := JLOG_READ, subscriber_name := Some (strdup subscriber)\<rparr> in
         if \<not> dir_exists fs
         then open_finish (SYS_FAIL JLOG_ERR_OPEN ctx (fs\<lparr>sys_errno := ENOENT\<rparr>))
                (fs\<lparr>sys_errno := ENOENT\<rparr>)
         else
           (case jlog_open_metastore_u2 ctx fs of
              (r, ctx, fs) \<Rightarrow>
                if r \<noteq> 0 then open_finish (SYS_FAIL JLOG_ERR_META_OPEN ctx fs) fs
                else
                  (case jlog_get_checkpoint (strdup subscriber) ctx fs of
                     (r, dummy, ctx, fs) \<Rightarrow>
                       if r \<noteq> 0 then open_finish (SYS_FAIL JLOG_ERR_INVALID_SUBSCRIBER ctx fs) fs
                       else
                         (case jlog_restore_metastore_u2 False ctx fs of
                            (r, ctx, fs) \<Rightarrow>
                              if r \<noteq> 0 then open_finish (SYS_FAIL JLOG_ERR_META_OPEN ctx fs) fs
                              else open_finish ctx fs)))))"

text \<open>
  \<open>jlog_ctx_init\<close>: the directory is made and the metastore is written from
  \<open>ctx->pre_init\<close>.
\<close>

definition jlog_ctx_init :: "jlog_ctx \<Rightarrow> jlog_fs \<Rightarrow> int \<times> jlog_ctx \<times> jlog_fs" where
  "jlog_ctx_init ctx fs =
     (let ctx = ctx\<lparr>last_error := JLOG_ERR_SUCCESS\<rparr> in
      if length (path ctx) > MAXLOGPATHLEN - 1
      then (-1, ctx\<lparr>last_error := JLOG_ERR_CREATE_PATHLEN\<rparr>, fs)
      else if context_mode ctx \<noteq> JLOG_NEW
      then (-1, ctx\<lparr>last_error := JLOG_ERR_ILLEGAL_INIT\<rparr>, fs)
      else
        (let ctx = ctx\<lparr>context_mode := JLOG_INIT\<rparr> in
         if dir_exists fs then (-1, SYS_FAIL JLOG_ERR_CREATE_EXISTS ctx fs, fs)
         else if \<not> can_write fs
         then (-1, SYS_FAIL JLOG_ERR_CREATE_MKDIR ctx (fs\<lparr>sys_errno := EACCES\<rparr>),
               fs\<lparr>sys_errno := EACCES\<rparr>)
         else
           (case jlog_open_metastore_u2 ctx (fs\<lparr>dir_exists := True, sys_errno := ENOENT\<rparr>) of
              (r, ctx, fs) \<Rightarrow>
                if r \<noteq> 0 then (-1, SYS_FAIL JLOG_ERR_CREATE_META ctx fs, fs)
                else
                  (case jlog_save_metastore_u2 False ctx fs of
                     (r, ctx, fs) \<Rightarrow>
                       if r \<noteq> 0 then (-1, SYS_FAIL JLOG_ERR_CREATE_META ctx fs, fs)
                       else ((if last_error ctx = JLOG_ERR_SUCCESS then 0 else -1), ctx, fs)))))"

text \<open>
  \<open>jlog_ctx_add_subscriber\<close> for \<open>whence = JLOG_BEGIN\<close>, the case the properties
  below are about.
\<close>

definition jlog_ctx_add_subscriber_begin :: "bytes \<Rightarrow> jlog_ctx \<Rightarrow> jlog_fs \<Rightarrow> int \<times> jlog_ctx \<times> jlog_fs" where
  "jlog_ctx_add_subscriber_begin s ctx fs =
     (let ctx = ctx\<lparr>last_error := JLOG_ERR_SUCCESS\<rparr> in
      case jlog_open_named_checkpoint_u2 s True fs of
        (None, fs) \<Rightarrow>
          (-1, ctx\<lparr>last_errno := sys_errno fs,
                   last_error := (if sys_errno fs = EEXIST then JLOG_ERR_SUBSCRIBER_EXISTS
                                  else JLOG_ERR_OPEN)\<rparr>, fs)
      | (Some jchkpt, fs) \<Rightarrow>
          (case jlog_ctx_first_log_id ctx fs of
             (r, chkpt, ctx) \<Rightarrow>
               (case jlog_set_checkpoint_u2 s chkpt ctx fs of
                  (r, ctx, fs) \<Rightarrow>
                    if r \<noteq> 0
                    then (-1, ctx\<lparr>last_error := JLOG_ERR_CHECKPOINT, last_errno := E_NONE\<rparr>, fs)
                    else (0, ctx, fs))))"


section \<open>Examples\<close>

text \<open>A directory and a reading context for the concrete cases below.\<close>

definition example_fs :: jlog_fs where
  "example_fs =
     \<lparr>dir_exists = True, metastore_file = None, data_files = [], index_files = [],
      named_files = [], can_lock = True, can_write = True, can_unlink = True,
      can_opendir = True, stack_garbage = 0, sys_errno = E_NONE\<rparr>"

definition example_ctx :: jlog_ctx where
  "example_ctx =
     \<lparr>metastore = False, context_mode = JLOG_READ, last_error = JLOG_ERR_SUCCESS, last_errno = E_NONE,
      current_log = 0, data = None, index = None, checkpoint = None, mmap_len = None,
      subscriber_name = None, path = ''/var/log/jlog'', meta_is_mapped = False,
      pre_init = \<lparr>storage_log = 0, unit_limit = 4194304, safety = 2, hdr_magic = 0x663A7318\<rparr>,
      trace = []\<rparr>"

section \<open>Properties of the checkpoint file names\<close>

lemma length_enc_le [simp]: "length (enc_le n w) = n"
  by (induction n arbitrary: w) auto

lemma dec_enc_le: "dec_le (enc_le n w) = take_bit (8 * n) w"
proof (induction n arbitrary: w)
  case 0
  show ?case by simp
next
  case (Suc n)
  show ?case
    apply (simp add: Suc)
    apply (rule bit_word_eqI)
    apply (auto simp add: bit_simps)
    done
qed

lemma byte_15: "(15::byte) = mask 4" by (simp add: mask_eq_exp_minus_1)
lemma byte_240: "(240::byte) = push_bit 4 (mask 4)" by (simp add: mask_eq_exp_minus_1 push_bit_eq_mult)

lemma nibble_hi_lt: "unat (drop_bit 4 ((c::byte) AND 0xf0)) < 16"
proof -
  have "drop_bit 4 (c AND 0xf0) = drop_bit 4 c"
    unfolding byte_240 by (rule bit_word_eqI) (auto simp add: bit_simps dest: bit_imp_le_length)
  moreover have "unat (drop_bit 4 c) < 16"
  proof -
    have "unat c < 2 ^ LENGTH(8)" by (rule unsigned_less)
    then show ?thesis by (simp add: drop_bit_eq_div unat_div)
  qed
  ultimately show ?thesis by simp
qed

lemma nibble_lo_lt: "unat ((c::byte) AND 0x0f) < 16"
proof -
  have "unat (c AND 15) \<le> unat (15 :: byte)"
    by (rule word_and_le1 [THEN word_le_nat_alt [THEN iffD1]])
  then show ?thesis by simp
qed

lemma nibbles_join: "push_bit 4 (of_nat (unat (drop_bit 4 ((c::byte) AND 0xf0)))) OR of_nat (unat (c AND 0x0f)) = c"
  unfolding byte_240 byte_15
  apply simp
  apply (rule bit_word_eqI)
  apply (auto simp add: bit_simps)
  done

lemma nibbles_join': "push_bit 4 (drop_bit 4 c) AND 240 OR c AND 15 = (c::byte)"
  unfolding byte_240 byte_15
  apply (rule bit_word_eqI)
  apply (auto simp add: bit_simps)
  done

lemma hex_index_hexchars: "n < 16 \<Longrightarrow> hex_index (jlog_hexchars ! n) = Some n"
proof -
  assume "n < 16"
  then have "n \<in> set [0..<16]" by simp
  then have "n \<in> {0,1,2,3,4,5,6,7,8,9,10,11,12,13,14,15}" 
    by (simp add: upt_rec numeral_eq_Suc) 
  then show ?thesis
    by (auto simp add: hex_index_def jlog_hexchars_def upt_rec numeral_eq_Suc)
qed

lemma decode_hex_of_subscriber:
  "0 \<notin> set s \<Longrightarrow> decode_subscriber (hex_of_subscriber s) = Some s"
proof (induction s)
  case Nil
  show ?case by simp
next
  case (Cons c s)
  then have c: "c \<noteq> 0" and s: "0 \<notin> set s" by auto
  show ?case
    using c Cons.IH [OF s]
    by (simp add: hex_index_hexchars nibble_hi_lt nibble_lo_lt nibbles_join')
qed

lemma strdup_id: "0 \<notin> set s \<Longrightarrow> strdup s = s"
  by (simp add: strdup_def) metis

lemma is_checkpoint_entry_checkpoint_entry: "is_checkpoint_entry (checkpoint_entry s)"
  by (simp add: is_checkpoint_entry_def checkpoint_entry_def)

lemma list_entries_filter:
  "list_entries ents = list_entries (filter is_checkpoint_entry ents)"
  by (induction ents) (auto split: option.splits sum.splits)

lemma list_entries_checkpoint_entries:
  "\<forall>s \<in> set names. 0 \<notin> set s \<Longrightarrow> list_entries (map checkpoint_entry names) = Inr names"
  by (induction names)
     (simp_all add: is_checkpoint_entry_checkpoint_entry, simp_all add: checkpoint_entry_def decode_hex_of_subscriber strdup_id)

text \<open>
  C9. A subscriber name of nonzero bytes is recovered from its checkpoint file name, and
  \<open>jlog_ctx_list_subscribers\<close> returns the names of the subscribers whose checkpoint
  files are the \<open>cp.\<close> entries of the directory, in directory order.
\<close>

theorem subscriber_names_round_trip:
  assumes "\<forall>s \<in> set names. 0 \<notin> set s"
    and "filter is_checkpoint_entry (map fst (named_files fs)) = map checkpoint_entry names"
    and "can_opendir fs"
  shows "(\<forall>s \<in> set names. decode_subscriber (drop 3 (checkpoint_entry s)) = Some s)
       \<and> jlog_ctx_list_subscribers fs = Inr (int (length names), names)"
proof -
  have "list_entries (map fst (named_files fs)) = Inr names"
    using assms(1,2) list_entries_filter [of "map fst (named_files fs)"]
    by (simp add: list_entries_checkpoint_entries)
  then show ?thesis
    using assms(1,3)
    by (simp add: jlog_ctx_list_subscribers_def checkpoint_entry_def decode_hex_of_subscriber)
qed


theorem subscriber_names_round_trip_witness:
  "0 \<notin> set ([0x73, 0xff, 0x01] :: bytes)
   \<and> decode_subscriber (drop 3 (checkpoint_entry [0x73, 0xff, 0x01])) = Some [0x73, 0xff, 0x01]
   \<and> jlog_ctx_list_subscribers
        (example_fs\<lparr>named_files := [(''cp.73ff01'', []), (''notes'', []), (''cp.61'', [])]\<rparr>)
      = Inr (2, [[0x73, 0xff, 0x01], [0x61]])"
proof -
  let ?names = "[[0x73, 0xff, 0x01], [0x61]] :: bytes list"
  let ?fs = "example_fs\<lparr>named_files := [(''cp.73ff01'', []), (''notes'', []), (''cp.61'', [])]\<rparr>"
  have h1: "\<forall>s \<in> set ?names. 0 \<notin> set s" by simp
  have h2: "filter is_checkpoint_entry (map fst (named_files ?fs)) = map checkpoint_entry ?names"
    by code_simp
  have h3: "can_opendir ?fs" by (simp add: example_fs_def)
  from subscriber_names_round_trip [OF h1 h2 h3] show ?thesis by simp
qed

section \<open>Removing a subscriber: the result\<close>

text \<open>
  C10. \<open>jlog_ctx_remove_subscriber\<close> returns 1 with \<open>last_error\<close> success when the
  checkpoint file existed and was unlinked, 0 with \<open>JLOG_ERR_INVALID_SUBSCRIBER\<close> when
  there is no such file (\<open>unlink\<close> fails with \<open>ENOENT\<close>), and \<open>-1\<close> when \<open>unlink\<close>
  fails for another reason.
\<close>

theorem remove_subscriber_contract:
  "(named_file fs (checkpoint_entry s) \<noteq> None \<and> can_unlink fs \<longrightarrow>
      (case jlog_ctx_remove_subscriber s ctx fs of
         (rv, ctx', fs') \<Rightarrow> rv = 1 \<and> last_error ctx' = JLOG_ERR_SUCCESS
                            \<and> named_file fs' (checkpoint_entry s) = None))
   \<and> (named_file fs (checkpoint_entry s) = None \<longrightarrow>
      (case jlog_ctx_remove_subscriber s ctx fs of
         (rv, ctx', fs') \<Rightarrow> rv = 0 \<and> last_error ctx' = JLOG_ERR_INVALID_SUBSCRIBER
                            \<and> sys_errno fs' = ENOENT \<and> named_files fs' = named_files fs))
   \<and> (fst (unlink_named (checkpoint_entry s) fs) \<noteq> 0
        \<and> sys_errno (snd (unlink_named (checkpoint_entry s) fs)) \<noteq> ENOENT \<longrightarrow>
      (case jlog_ctx_remove_subscriber s ctx fs of
         (rv, ctx', fs') \<Rightarrow> rv = -1 \<and> named_files fs' = named_files fs))"
  by (auto simp add: jlog_ctx_remove_subscriber_def unlink_named_def named_file_def
        delete_conv' split: prod.splits if_splits)

theorem remove_subscriber_contract_witness:
  "fst (jlog_ctx_remove_subscriber [0x61] example_ctx
          (example_fs\<lparr>named_files := [(''cp.61'', [])]\<rparr>)) = 1
   \<and> fst (jlog_ctx_remove_subscriber [0x61] example_ctx example_fs) = 0
   \<and> fst (jlog_ctx_remove_subscriber [0x61] example_ctx
          (example_fs\<lparr>named_files := [(''cp.61'', [])], can_unlink := False\<rparr>)) = -1"
proof -
  let ?fs1 = "example_fs\<lparr>named_files := [(''cp.61'', [])]\<rparr>"
  let ?fs3 = "example_fs\<lparr>named_files := [(''cp.61'', [])], can_unlink := False\<rparr>"
  have e: "checkpoint_entry [0x61] = ''cp.61''" by code_simp
  have a: "named_file ?fs1 (checkpoint_entry [0x61]) \<noteq> None \<and> can_unlink ?fs1"
    by (simp add: e named_file_def example_fs_def)
  have b: "named_file example_fs (checkpoint_entry [0x61]) = None"
    by (simp add: e named_file_def example_fs_def)
  have c: "fst (unlink_named (checkpoint_entry [0x61]) ?fs3) \<noteq> 0
        \<and> sys_errno (snd (unlink_named (checkpoint_entry [0x61]) ?fs3)) \<noteq> ENOENT"
    by (simp add: e unlink_named_def example_fs_def)
  from remove_subscriber_contract [of ?fs1 "[0x61]" example_ctx] a
       remove_subscriber_contract [of example_fs "[0x61]" example_ctx] b
       remove_subscriber_contract [of ?fs3 "[0x61]" example_ctx] c
  show ?thesis by (auto split: prod.splits)
qed

section \<open>Reading the index: the interpretation\<close>





section \<open>Opening the files: helper facts\<close>


definition ctx_opened :: "u32 \<Rightarrow> jlog_ctx \<Rightarrow> jlog_ctx" where
  "ctx_opened lg ctx =
     (if current_log ctx = lg then ctx else ctx\<lparr>mmap_len := None, data := None, index := None\<rparr>)"

lemma open_reader_existing:
  assumes "data ctx = None \<or> data ctx = Some (current_log ctx)" and "data_file fs lg = Some df"
  shows "jlog_open_reader_u2 lg ctx fs = ((ctx_opened lg ctx)\<lparr>data := Some lg, current_log := lg\<rparr>, fs)"
  using assms
  by (cases "current_log ctx = lg"; cases "data ctx")
     (auto simp add: jlog_open_reader_u2_def jlog_close_indexer_u2_def jlog_close_reader_u2_def
        jlog_munmap_reader_u2_def Let_def ctx_opened_def)

lemma open_indexer_existing':
  assumes "index ctx = None \<or> index ctx = Some (current_log ctx)"
    and "index_name_fits ctx" and "index_file fs lg = Some f"
  shows "jlog_open_indexer_u2 lg ctx fs = ((ctx_opened lg ctx)\<lparr>index := Some lg, current_log := lg\<rparr>, fs)"
  using assms
  by (cases "current_log ctx = lg"; cases "index ctx")
     (auto simp add: jlog_open_indexer_u2_def jlog_close_indexer_u2_def jlog_close_reader_u2_def
        jlog_munmap_reader_u2_def index_name_fits_def Let_def ctx_opened_def)

lemma read_pass_to_lookup:
  assumes "context_mode ctx = JLOG_READ"
    and "data ctx = None \<or> data ctx = Some (current_log ctx)"
    and "index ctx = None \<or> index ctx = Some (current_log ctx)"
    and "index_name_fits ctx"
    and "data_file fs (log rid) = Some df" and "index_file fs (log rid) = Some f"
    and "with_lock \<longrightarrow> can_lock fs"
    and "marker rid \<noteq> 0"
  shows "jlog_read_pass with_lock rid ctx fs
       = read_lookup with_lock rid (log rid)
           ((ctx_opened (log rid) (ctx\<lparr>last_error := JLOG_ERR_SUCCESS\<rparr>))
              \<lparr>data := Some (log rid), index := Some (log rid), current_log := log rid\<rparr>) fs"
proof -
  let ?c0 = "ctx\<lparr>last_error := JLOG_ERR_SUCCESS\<rparr>"
  let ?c1 = "(ctx_opened (log rid) ?c0)\<lparr>data := Some (log rid), current_log := log rid\<rparr>"
  have m0: "\<not> marker rid < 1" using assms(8) by (simp add: word_less_1)
  from assms(2) have d0: "data ?c0 = None \<or> data ?c0 = Some (current_log ?c0)" by simp
  note o1 = open_reader_existing [OF d0 assms(5)]
  have i1: "index ?c1 = None \<or> index ?c1 = Some (current_log ?c1)"
    using assms(3) by (auto simp add: ctx_opened_def)
  have p1: "index_name_fits ?c1" using assms(4) by (simp add: index_name_fits_def ctx_opened_def)
  note o2 = open_indexer_existing' [OF i1 p1 assms(6)]
  have lk: "\<not> (with_lock \<and> \<not> can_lock fs)" using assms(7) by simp
  show ?thesis
    using assms(1,7) m0
    by (cases with_lock) (simp_all add: jlog_read_pass_def Let_def o1 o2, simp_all add: ctx_opened_def)
qed


section \<open>The context across a resynchronisation\<close>


lemmas close_defs = jlog_close_indexer_u2_def jlog_close_reader_u2_def jlog_munmap_reader_u2_def

lemma open_reader_mode: "context_mode (fst (jlog_open_reader_u2 lg ctx fs)) = context_mode ctx"
  by (simp add: jlog_open_reader_u2_def close_defs Let_def split: option.splits)

lemma open_indexer_mode: "context_mode (fst (jlog_open_indexer_u2 lg ctx fs)) = context_mode ctx"
  by (simp add: jlog_open_indexer_u2_def close_defs Let_def split: option.splits)

lemma resync_pass_mode:
  "context_mode (fst (snd (jlog_resync_pass lg lastp ctx fs))) = context_mode ctx"
proof -
  obtain c f where o: "jlog_open_indexer_u2 lg (ctx\<lparr>trace := trace ctx @ [Resync_pass lg]\<rparr>) fs = (c, f)"
    by (cases "jlog_open_indexer_u2 lg (ctx\<lparr>trace := trace ctx @ [Resync_pass lg]\<rparr>) fs")
  have "context_mode c = context_mode ctx"
    using open_indexer_mode [of lg "ctx\<lparr>trace := trace ctx @ [Resync_pass lg]\<rparr>" fs] o by simp
  then show ?thesis
    by (simp add: jlog_resync_pass_def Let_def o SYS_FAIL_def split: option.splits prod.splits)
qed

lemma resync_u3_mode:
  "context_mode (fst (snd (jlog_resync_index_u3 lg ctx fs))) = context_mode ctx"
proof -
  let ?c0 = "ctx\<lparr>last_error := JLOG_ERR_SUCCESS, trace := trace ctx @ [Resync_call lg]\<rparr>"
  obtain c1 f1 where o: "jlog_open_reader_u2 lg ?c0 fs = (c1, f1)"
    by (cases "jlog_open_reader_u2 lg ?c0 fs")
  have m1: "context_mode c1 = context_mode ctx"
    using open_reader_mode [of lg ?c0 fs] o by simp
  obtain ex c2 f2 l2 cl2 where p1: "jlog_resync_pass lg None c1 f1 = (ex, c2, f2, l2, cl2)"
    by (cases "jlog_resync_pass lg None c1 f1")
  have m2: "context_mode c2 = context_mode ctx"
    using resync_pass_mode [of lg None c1 f1] p1 m1 by simp
  show ?thesis
  proof (cases ex)
    case (Goto_restart n)
    obtain c3 f3 where r: "RESTART lg n c2 f2 = (c3, f3)" by (cases "RESTART lg n c2 f2")
    have m3: "context_mode c3 = context_mode ctx" using r m2 by (auto simp add: RESTART_def)
    obtain ex' c4 f4 l4 cl4 where p2: "jlog_resync_pass lg l2 c3 f3 = (ex', c4, f4, l4, cl4)"
      by (cases "jlog_resync_pass lg l2 c3 f3")
    have m4: "context_mode c4 = context_mode ctx"
      using resync_pass_mode [of lg l2 c3 f3] p2 m3 by simp
    show ?thesis
      using Goto_restart m4
      by (cases ex') (simp_all add: jlog_resync_index_u3_def Let_def o p1 r p2 resync_finish_def SYS_FAIL_def m1)
  qed (simp_all add: jlog_resync_index_u3_def Let_def o p1 resync_finish_def m1 m2)
qed


section \<open>Reading a message: the bounds of the mapping\<close>


lemmas open_defs = jlog_open_reader_u2_def jlog_open_indexer_u2_def close_defs
  index_name_fits_def MAXPATHLEN_def data_file_def index_file_def

lemma enc64_0: "enc64 0 = [0, 0, 0, 0, 0, 0, 0, 0]" by code_simp
lemma dec64_0: "dec64 [0, 0, 0, 0, 0, 0, 0, 0] = 0" by (simp add: dec64_def)

lemma read_pass_fault:
  "fst (jlog_read_pass False \<lparr>log = 0, marker = 1\<rparr> example_ctx
        (example_fs\<lparr>data_files := [(0, replicate 8 0)], index_files := [(0, enc64 0)]\<rparr>)) = Rd_fault"
  by (simp add: jlog_read_pass_def read_lookup_def read_fetch_def jlog_mmap_reader_u2_def
        mmap_read_def open_defs example_ctx_def example_fs_def Let_def enc64_0 dec64_0
        jlog_file_pread_def hdr_size_def SYS_FAIL_def)

text \<open>
  C8 fails on the code. The data file holds 8 bytes and the index one entry, the offset
  0. \<open>mmap_len - sizeof(jlog_message_header)\<close> wraps around to \<open>2^64 - 8\<close>, the first
  check lets the offset pass, and the header is copied from 16 bytes at an offset where
  the mapping has 8: the read leaves the mapped length.
\<close>

theorem read_message_out_of_bounds:
  "map_option fst
     (jlog_ctx_read_message \<lparr>log = 0, marker = 1\<rparr> example_ctx
        (example_fs\<lparr>data_files := [(0, replicate 8 0)], index_files := [(0, enc64 0)]\<rparr>))
   = Some Read_fault"
proof -
  let ?fs = "example_fs\<lparr>data_files := [(0, replicate 8 0)], index_files := [(0, enc64 0)]\<rparr>"
  obtain ctx' fs' where "jlog_read_pass False \<lparr>log = 0, marker = 1\<rparr> example_ctx ?fs
      = (Rd_fault, ctx', fs')"
    using read_pass_fault
    by (cases "jlog_read_pass False \<lparr>log = 0, marker = 1\<rparr> example_ctx ?fs") auto
  then show ?thesis
    by (simp add: jlog_ctx_read_message_def read_message_from.simps)
qed


section \<open>The codecs and the metastore: helper facts\<close>


lemma dec_enc32 [simp]: "dec32 (enc32 w) = w"
  by (simp add: dec32_def enc32_def dec_enc_le take_bit_word_eq_self)

lemma dec_enc64 [simp]: "dec64 (enc64 w) = w"
  by (simp add: dec64_def enc64_def dec_enc_le take_bit_word_eq_self)

lemma length_enc32 [simp]: "length (enc32 w) = 4"
  by (simp add: enc32_def)

lemma length_enc64 [simp]: "length (enc64 w) = 8"
  by (simp add: enc64_def)

lemma decode_encode_meta [simp]: "decode_meta (encode_meta m) = m"
  by (simp add: decode_meta_def encode_meta_def)

lemma decode_encode_header [simp]: "decode_header (encode_header h) = h"
  by (simp add: decode_header_def encode_header_def)

lemma decode_encode_id [simp]: "decode_id (encode_id i) = i"
  by (simp add: decode_id_def encode_id_def)

lemma length_encode_meta [simp]: "length (encode_meta m) = 16"
  by (simp add: encode_meta_def)

lemma length_encode_header [simp]: "length (encode_header m) = 16"
  by (simp add: encode_header_def)

lemma length_encode_id [simp]: "length (encode_id m) = 8"
  by (simp add: encode_id_def)

lemma pwrite_append [simp]: "jlog_file_pwrite f buf (length f) = f @ buf"
  by (simp add: jlog_file_pwrite_def)

lemma pwrite_storage_log:
  assumes "length b = 16"
  shows "decode_meta (jlog_file_pwrite b (enc32 v) 0) = (decode_meta b)\<lparr>storage_log := v\<rparr>"
    and "length (jlog_file_pwrite b (enc32 v) 0) = 16"
  using assms by (simp_all add: jlog_file_pwrite_def decode_meta_def)

lemma ctx_meta_current_log [simp]: "ctx_meta (ctx\<lparr>current_log := v\<rparr>) fs = ctx_meta ctx fs"
  by (simp add: ctx_meta_def)

lemma ctx_meta_data [simp]: "ctx_meta (ctx\<lparr>data := v\<rparr>) fs = ctx_meta ctx fs"
  by (simp add: ctx_meta_def)

lemma ctx_meta_last_error [simp]: "ctx_meta (ctx\<lparr>last_error := v\<rparr>) fs = ctx_meta ctx fs"
  by (simp add: ctx_meta_def)

lemma ctx_meta_SYS_FAIL [simp]: "ctx_meta (SYS_FAIL e ctx fs') fs = ctx_meta ctx fs"
  by (simp add: ctx_meta_def SYS_FAIL_def)

lemma atomic_increment_current_log:
  "jlog_metastore_atomic_increment_u2 ctx fs = (rv, ctx', fs') \<Longrightarrow>
   current_log ctx' = storage_log (ctx_meta ctx' fs')"
  by (auto simp add: jlog_metastore_atomic_increment_u2_def Let_def split: prod.splits)

section \<open>Rotation\<close>

definition ctx_restored :: "jlog_ctx \<Rightarrow> jlog_fs \<Rightarrow> jlog_ctx" where
  "ctx_restored ctx fs =
     (if meta_is_mapped ctx then ctx
      else ctx\<lparr>meta_is_mapped := True,
               pre_init := (pre_init ctx)
                 \<lparr>hdr_magic := hdr_magic (ctx_meta (ctx\<lparr>meta_is_mapped := True\<rparr>) fs)\<rparr>\<rparr>)"

lemma restore_metastore_ok:
  assumes "metastore ctx" and "metastore_file fs = Some b" and "length b = 16"
    and "ilocked \<or> can_lock fs"
  shows "jlog_restore_metastore_u2 ilocked ctx fs = (0, ctx_restored ctx fs, fs)"
  using assms by (auto simp add: jlog_restore_metastore_u2_def ctx_restored_def Let_def)

lemma ctx_meta_restored:
  assumes "metastore_file fs = Some b"
  shows "ctx_meta (ctx_restored ctx fs) fs = decode_meta b"
  using assms by (simp add: ctx_restored_def ctx_meta_def)

lemma ctx_restored_fields [simp]:
  "current_log (ctx_restored ctx fs) = current_log ctx"
  "data (ctx_restored ctx fs) = data ctx"
  "metastore (ctx_restored ctx fs) = metastore ctx"
  "meta_is_mapped (ctx_restored ctx fs) = True"
  "last_error (ctx_restored ctx fs) = last_error ctx"
  "context_mode (ctx_restored ctx fs) = context_mode ctx"
  "index (ctx_restored ctx fs) = index ctx"
  "mmap_len (ctx_restored ctx fs) = mmap_len ctx"
  "path (ctx_restored ctx fs) = path ctx"
  "subscriber_name (ctx_restored ctx fs) = subscriber_name ctx"
  "checkpoint (ctx_restored ctx fs) = checkpoint ctx"
  "trace (ctx_restored ctx fs) = trace ctx"
  by (simp_all add: ctx_restored_def)

text \<open>
  C6. The rotation routine re-reads the metastore under its lock. If \<open>storage_log\<close>
  equals the writer's \<open>current_log\<close>, it is incremented by one (in 32 bits), the new
  segment file is there and the metastore holds the new value; otherwise nothing in the
  directory changes and the context adopts the metastore's \<open>storage_log\<close>. In every
  case, also when the routine fails, \<open>current_log\<close> equals the metastore's
  \<open>storage_log\<close> on return.
\<close>

theorem rotation_atomic_increment:
  "(case jlog_metastore_atomic_increment_u2 ctx fs of
      (rv, ctx', fs') \<Rightarrow> current_log ctx' = storage_log (ctx_meta ctx' fs'))
   \<and> (metastore ctx \<and> metastore_file fs = Some b \<and> length b = 16 \<and> data ctx = None
        \<and> can_lock fs \<and> can_write fs \<and> storage_log (decode_meta b) = current_log ctx \<longrightarrow>
      (case jlog_metastore_atomic_increment_u2 ctx fs of
         (rv, ctx', fs') \<Rightarrow>
           storage_log (ctx_meta ctx' fs') = storage_log (decode_meta b) + 1
         \<and> data_file fs' (storage_log (decode_meta b) + 1) \<noteq> None
         \<and> data ctx' = Some (storage_log (decode_meta b) + 1)
         \<and> metastore_file fs' = Some (jlog_file_pwrite b (enc32 (storage_log (decode_meta b) + 1)) 0)
         \<and> (rv = 0) = (last_error ctx = JLOG_ERR_SUCCESS)))
   \<and> (metastore ctx \<and> metastore_file fs = Some b \<and> length b = 16 \<and> data ctx = None
        \<and> can_lock fs \<and> storage_log (decode_meta b) \<noteq> current_log ctx \<longrightarrow>
      (case jlog_metastore_atomic_increment_u2 ctx fs of
         (rv, ctx', fs') \<Rightarrow>
           fs' = fs \<and> storage_log (ctx_meta ctx' fs') = storage_log (decode_meta b)
         \<and> current_log ctx' = storage_log (decode_meta b) \<and> data ctx' = None))"
proof (intro conjI impI)
  show "case jlog_metastore_atomic_increment_u2 ctx fs of
      (rv, ctx', fs') \<Rightarrow> current_log ctx' = storage_log (ctx_meta ctx' fs')"
    by (auto simp add: jlog_metastore_atomic_increment_u2_def Let_def split: prod.splits)
next
  assume a: "metastore ctx \<and> metastore_file fs = Some b \<and> length b = 16 \<and> data ctx = None
        \<and> can_lock fs \<and> can_write fs \<and> storage_log (decode_meta b) = current_log ctx"
  then have r: "jlog_restore_metastore_u2 True ctx fs = (0, ctx_restored ctx fs, fs)"
    by (intro restore_metastore_ok) auto
  from a have m: "ctx_meta (ctx_restored ctx fs) fs = decode_meta b"
    by (simp add: ctx_meta_restored)
  let ?S = "current_log ctx + 1"
  let ?fs1 = "snd (open_data_creat ?S fs)"
  from a have o: "fst (open_data_creat ?S fs) = Some ?S" "data_file ?fs1 ?S \<noteq> None"
      "metastore_file ?fs1 = Some b" "can_write ?fs1"
    by (auto simp add: open_data_creat_def set_data_file_def data_file_def update_conv'
          split: option.splits)
  obtain h f1 where oc: "open_data_creat ?S fs = (h, f1)" by (cases "open_data_creat ?S fs")
  with o have h: "h = Some ?S" and f1: "data_file f1 ?S \<noteq> None" "metastore_file f1 = Some b"
    "can_write f1" by simp_all
  let ?f2 = "f1\<lparr>metastore_file := Some (jlog_file_pwrite b (enc32 ?S) 0)\<rparr>"
  let ?c2 = "(ctx_restored ctx fs)\<lparr>current_log := ?S, data := Some ?S\<rparr>"
  have body: "atomic_increment_body ctx fs = (?c2, ?f2)"
    using a f1
    by (simp add: atomic_increment_body_def r m oc h Let_def set_storage_log_def
          jlog_save_metastore_u2_def)
  have m2: "ctx_meta (ctx_restored ctx fs) ?f2 = (decode_meta b)\<lparr>storage_log := ?S\<rparr>"
    using a by (simp add: ctx_meta_def pwrite_storage_log)
  show "case jlog_metastore_atomic_increment_u2 ctx fs of
         (rv, ctx', fs') \<Rightarrow>
           storage_log (ctx_meta ctx' fs') = storage_log (decode_meta b) + 1
         \<and> data_file fs' (storage_log (decode_meta b) + 1) \<noteq> None
         \<and> data ctx' = Some (storage_log (decode_meta b) + 1)
         \<and> metastore_file fs' = Some (jlog_file_pwrite b (enc32 (storage_log (decode_meta b) + 1)) 0)
         \<and> (rv = 0) = (last_error ctx = JLOG_ERR_SUCCESS)"
    using a f1 by (simp add: jlog_metastore_atomic_increment_u2_def body Let_def m2 data_file_def)
next
  assume a: "metastore ctx \<and> metastore_file fs = Some b \<and> length b = 16 \<and> data ctx = None
        \<and> can_lock fs \<and> storage_log (decode_meta b) \<noteq> current_log ctx"
  then have r: "jlog_restore_metastore_u2 True ctx fs = (0, ctx_restored ctx fs, fs)"
    by (intro restore_metastore_ok) auto
  from a have m: "ctx_meta (ctx_restored ctx fs) fs = decode_meta b"
    by (simp add: ctx_meta_restored)
  have body: "atomic_increment_body ctx fs = (ctx_restored ctx fs, fs)"
    using a by (simp add: atomic_increment_body_def r m)
  show "case jlog_metastore_atomic_increment_u2 ctx fs of
         (rv, ctx', fs') \<Rightarrow>
           fs' = fs \<and> storage_log (ctx_meta ctx' fs') = storage_log (decode_meta b)
         \<and> current_log ctx' = storage_log (decode_meta b) \<and> data ctx' = None"
    using a by (simp add: jlog_metastore_atomic_increment_u2_def body Let_def m)
qed

text \<open>A writer's context over a metastore whose \<open>storage_log\<close> is 0.\<close>

definition writer_ctx :: jlog_ctx where
  "writer_ctx = example_ctx\<lparr>metastore := True, context_mode := JLOG_APPEND, meta_is_mapped := True\<rparr>"

definition metastore_fs :: jlog_fs where
  "metastore_fs =
     example_fs\<lparr>metastore_file :=
       Some (encode_meta \<lparr>storage_log = 0, unit_limit = 17, safety = 2, hdr_magic = 0x663A7318\<rparr>)\<rparr>"

theorem rotation_atomic_increment_witness:
  "(case jlog_metastore_atomic_increment_u2 writer_ctx metastore_fs of
      (rv, ctx', fs') \<Rightarrow>
        current_log ctx' = 1 \<and> storage_log (ctx_meta ctx' fs') = 1 \<and> data_file fs' 1 \<noteq> None)
   \<and> (case jlog_metastore_atomic_increment_u2 (writer_ctx\<lparr>current_log := 5\<rparr>) metastore_fs of
      (rv, ctx', fs') \<Rightarrow> fs' = metastore_fs \<and> current_log ctx' = 0)"
proof -
  let ?m = "\<lparr>storage_log = 0, unit_limit = 17, safety = 2, hdr_magic = 0x663A7318\<rparr>"
  have h: "metastore writer_ctx" "metastore_file metastore_fs = Some (encode_meta ?m)"
    "data writer_ctx = None" "can_lock metastore_fs" "can_write metastore_fs"
    "current_log writer_ctx = 0"
    by (simp_all add: writer_ctx_def example_ctx_def metastore_fs_def example_fs_def)
  from rotation_atomic_increment [of writer_ctx metastore_fs "encode_meta ?m"]
       rotation_atomic_increment [of "writer_ctx\<lparr>current_log := 5\<rparr>" metastore_fs "encode_meta ?m"]
       h
  show ?thesis by (auto split: prod.splits)
qed

section \<open>Resynchronising the index: when a segment is sealed\<close>

lemma length_concat_enc64 [simp]: "length (concat (map enc64 xs)) = length xs * 8"
  by (induction xs) simp_all

lemma enc64_not_Nil [simp]: "enc64 w \<noteq> []"
proof
  assume "enc64 w = []"
  then have "length (enc64 w) = 0" by simp
  then show False by (simp only: length_enc64)
qed

lemma resync_scan_index_off:
  assumes "resync_scan dataf magic wr data_len data_off index_off indices idxf
             = Scan_done d io ind idxf1"
    and "index_off = length idxf"
  shows "io = length idxf1"
  using assms
proof (induction dataf magic wr data_len data_off index_off indices idxf
         rule: resync_scan.induct)
  case (1 dataf magic wr data_len data_off index_off indices idxf)
  note s = resync_scan.simps [of dataf magic wr data_len data_off index_off indices idxf]
  show ?case
  proof (cases "data_off + hdr_size \<le> data_len")
    case False
    with "1.prems" s show ?thesis by simp
  next
    case True
    with "1.prems"(1) s obtain b where b: "jlog_file_pread dataf hdr_size data_off = Some b"
      by (cases "jlog_file_pread dataf hdr_size data_off") auto
    let ?h = "decode_header b"
    let ?n = "data_off + hdr_size + unat (mlen ?h)"
    let ?i = "indices @ [of_nat data_off]"
    from "1.prems"(1) s True b have m: "reserved ?h = magic"
      by (auto simp add: Let_def split: if_splits)
    show ?thesis
    proof (cases "?n > data_len")
      case True
      with "1.prems" s \<open>data_off + hdr_size \<le> data_len\<close> b m show ?thesis
        by (simp add: Let_def)
    next
      case n: False
      show ?thesis
      proof (cases "length ?i \<ge> BUFFERED_INDICES")
        case True
        with "1.prems"(1) s \<open>data_off + hdr_size \<le> data_len\<close> b m n have wr: wr
          and r: "resync_scan dataf magic wr data_len ?n (index_off + length ?i * 8) []
                    (jlog_file_pwrite idxf (concat (map enc64 ?i)) index_off)
                  = Scan_done d io ind idxf1"
          by (auto simp add: Let_def split: if_splits)
        show ?thesis
        proof (rule "1.IH"(1) [OF \<open>data_off + hdr_size \<le> data_len\<close> b refl _ refl n refl True _ r])
          show "\<not> reserved ?h \<noteq> magic" using m by simp
          show "\<not> \<not> wr" using wr by simp
          show "index_off + length ?i * 8
                  = length (jlog_file_pwrite idxf (concat (map enc64 ?i)) index_off)"
            using "1.prems"(2) by (simp add: jlog_file_pwrite_def)
        qed
      next
        case False
        with "1.prems"(1) s \<open>data_off + hdr_size \<le> data_len\<close> b m n have
          r: "resync_scan dataf magic wr data_len ?n index_off ?i idxf = Scan_done d io ind idxf1"
          by (auto simp add: Let_def split: if_splits)
        show ?thesis
        proof (rule "1.IH"(2) [OF \<open>data_off + hdr_size \<le> data_len\<close> b refl _ refl n refl False r])
          show "\<not> reserved ?h \<noteq> magic" using m by simp
          show "index_off = length idxf" by (rule "1.prems"(2))
        qed
      qed
    qed
  qed
qed

text \<open>
  C4. A pass of \<open>___jlog_resync_index\<close> whose forward scan ends normally, with the index
  writes succeeding: with \<open>idx\<close> the index once the buffered offsets are written, the
  pass appends one zero entry to \<open>idx\<close> exactly when the segment id is below
  \<open>storage_log\<close>, the scan stopped at \<open>data_len\<close> and \<open>idx\<close> is not empty. An empty
  index is left empty, and a segment below \<open>storage_log\<close> whose scan stopped short of
  \<open>data_len\<close> fails with \<open>JLOG_ERR_FILE_CORRUPT\<close> and gets no zero entry.
\<close>

theorem resync_seals_iff:
  assumes "length idxf mod 8 = 0"
    and "resync_last_entry idxf (length idxf) (length dataf) = Step_off d0"
    and "resync_advance dataf (length idxf) d0 (length dataf) = Step_off d1"
    and "resync_scan dataf magic True (length dataf) d1 (length idxf) [] idxf
           = Scan_done data_off index_off indices idxf1"
  shows "resync_body lg lastp magic stor True dataf idxf =
           (let idx = idxf1 @ concat (map enc64 indices);
                l = Some \<lparr>log = lg, marker = of_nat (length idx div 8)\<rparr>
            in if lg < stor \<and> data_off = length dataf \<and> idx \<noteq> []
               then (Goto_finish, None, idx @ enc64 0, l, True)
               else if lg < stor \<and> data_off \<noteq> length dataf
               then (Goto_finish, Some JLOG_ERR_FILE_CORRUPT, idx, l, False)
               else (Goto_finish, None, idx, l, lg < stor))
         \<and> ((fst (snd (snd (resync_body lg lastp magic stor True dataf idxf)))
                = (idxf1 @ concat (map enc64 indices)) @ enc64 0)
              = (lg < stor \<and> data_off = length dataf
                   \<and> idxf1 @ concat (map enc64 indices) \<noteq> []))"
proof -
  have io: "index_off = length idxf1"
    by (rule resync_scan_index_off [OF assms(4) refl])
  have ne: "enc64 0 \<noteq> []" by (simp add: enc64_0)
  have b: "resync_body lg lastp magic stor True dataf idxf =
           (let idx = idxf1 @ concat (map enc64 indices);
                l = Some \<lparr>log = lg, marker = of_nat (length idx div 8)\<rparr>
            in if lg < stor \<and> data_off = length dataf \<and> idx \<noteq> []
               then (Goto_finish, None, idx @ enc64 0, l, True)
               else if lg < stor \<and> data_off \<noteq> length dataf
               then (Goto_finish, Some JLOG_ERR_FILE_CORRUPT, idx, l, False)
               else (Goto_finish, None, idx, l, lg < stor))"
    using assms(1) by (auto simp add: resync_body_def assms(2-4) resync_seal_def io Let_def jlog_file_pwrite_def)
  have "(fst (snd (snd (resync_body lg lastp magic stor True dataf idxf)))
            = (idxf1 @ concat (map enc64 indices)) @ enc64 0)
         = (lg < stor \<and> data_off = length dataf \<and> idxf1 @ concat (map enc64 indices) \<noteq> [])"
    using ne by (simp add: b Let_def)
  with b show ?thesis by (rule conjI)
qed

text \<open>
  A segment of one record with a payload of one byte and no index yet, below
  \<open>storage_log\<close>: the pass writes the offset 0 and the closing zero.
\<close>

theorem resync_seals_iff_witness:
  "resync_body 0 None 7 1 True
     (encode_header \<lparr>reserved = 7, tv_sec = 0, tv_usec = 0, mlen = 1\<rparr> @ [42]) []
   = (Goto_finish, None, enc64 0 @ enc64 0, Some \<lparr>log = 0, marker = 1\<rparr>, True)"
proof -
  let ?d = "encode_header \<lparr>reserved = 7, tv_sec = 0, tv_usec = 0, mlen = 1\<rparr> @ [42::byte]"
  have h1: "length ([]::bytes) mod 8 = 0" by simp
  have h2: "resync_last_entry [] (length ([]::bytes)) (length ?d) = Step_off 0" by code_simp
  have h3: "resync_advance ?d (length ([]::bytes)) 0 (length ?d) = Step_off 0" by code_simp
  have h4: "resync_scan ?d 7 True (length ?d) 0 (length ([]::bytes)) [] []
              = Scan_done 17 0 [0] []" by code_simp
  from resync_seals_iff [OF h1 h2 h3 h4, of 0 None 1] show ?thesis
    by (simp add: Let_def enc64_0)
qed


section \<open>Retention on a checkpoint advance\<close>


















section \<open>Resynchronising the index: the retries\<close>




text \<open>An error of \<open>SYS_FAIL\<close> makes the pass jump to \<open>finish\<close>.\<close>

lemma resync_body_error:
  assumes "resync_body lg lastp magic stor wr dataf idxf = (ex, Some e, idxf', l, cl)"
  shows "ex = Goto_finish"
  using assms
  by (auto simp add: resync_body_def resync_seal_def Let_def
        split: if_splits resync_step.splits scan_result.splits)


text \<open>
  What one call of \<open>___jlog_resync_index\<close> adds to the trace: the call alone (the data
  file is not opened), one pass, or two passes with the truncation and the unlock of
  \<open>RESTART\<close> between them.
\<close>

fun call_events :: "u32 \<Rightarrow> jlog_event list \<Rightarrow> bool" where
  "call_events lg [Resync_call a] = (a = lg)"
| "call_events lg [Resync_call a, Resync_pass b] = (a = lg \<and> b = lg)"
| "call_events lg [Resync_call a, Resync_pass b, Index_truncate c off, Index_unlock d,
                   Resync_pass e] = (a = lg \<and> b = lg \<and> c = lg \<and> d = lg \<and> e = lg)"
| "call_events lg ev = False"


definition same_meta :: "jlog_ctx \<Rightarrow> jlog_fs \<Rightarrow> jlog_ctx \<Rightarrow> jlog_fs \<Rightarrow> bool" where
  "same_meta c f ctx fs =
     (meta_is_mapped c = meta_is_mapped ctx \<and> pre_init c = pre_init ctx
      \<and> metastore_file f = metastore_file fs
      \<and> can_lock f = can_lock fs \<and> can_write f = can_write fs)"


lemma open_reader_frame:
  assumes "jlog_open_reader_u2 lg ctx fs = (c, f)"
  shows "trace c = trace ctx" and "same_meta c f ctx fs"
  using assms
  by (auto simp add: jlog_open_reader_u2_def close_defs Let_def same_meta_def
        split: option.splits if_splits)

lemma open_indexer_frame:
  assumes "jlog_open_indexer_u2 lg ctx fs = (c, f)"
  shows "trace c = trace ctx" and "same_meta c f ctx fs"
  using assms
  by (auto simp add: jlog_open_indexer_u2_def close_defs Let_def same_meta_def set_index_file_def
        split: option.splits if_splits)

lemma resync_pass_frame:
  assumes "jlog_resync_pass lg lastp ctx fs = (ex, c, f, l, cl)"
  shows "trace c = trace ctx @ [Resync_pass lg]" and "same_meta c f ctx fs"
proof -
  let ?c0 = "ctx\<lparr>trace := trace ctx @ [Resync_pass lg]\<rparr>"
  obtain c1 f1 where o: "jlog_open_indexer_u2 lg ?c0 fs = (c1, f1)"
    by (cases "jlog_open_indexer_u2 lg ?c0 fs")
  note fr = open_indexer_frame [OF o]
  from assms show "trace c = trace ctx @ [Resync_pass lg]"
    using fr(1)
    by (auto simp add: jlog_resync_pass_def Let_def o SYS_FAIL_def
          split: option.splits prod.splits if_splits)
  from assms show "same_meta c f ctx fs"
    using fr(2)
    by (auto simp add: jlog_resync_pass_def Let_def o SYS_FAIL_def same_meta_def set_index_file_def
          split: option.splits prod.splits if_splits)
qed

lemma RESTART_frame:
  assumes "RESTART lg off ctx fs = (c, f)"
  shows "trace c = trace ctx @ [Index_truncate lg off, Index_unlock lg]"
    and "same_meta c f ctx fs"
  using assms
  by (auto simp add: RESTART_def truncate_index_def same_meta_def set_index_file_def
        split: option.splits if_splits)

lemma same_meta_trans:
  "same_meta c2 f2 c1 f1 \<Longrightarrow> same_meta c1 f1 ctx fs \<Longrightarrow> same_meta c2 f2 ctx fs"
  by (simp add: same_meta_def)

lemma resync_u3_frame:
  assumes "jlog_resync_index_u3 lg ctx fs = (rv, c, f, l, cl)"
  shows "\<exists>ev. trace c = trace ctx @ ev \<and> call_events lg ev" and "same_meta c f ctx fs"
proof -
  let ?c0 = "ctx\<lparr>last_error := JLOG_ERR_SUCCESS, trace := trace ctx @ [Resync_call lg]\<rparr>"
  obtain c1 f1 where o: "jlog_open_reader_u2 lg ?c0 fs = (c1, f1)"
    by (cases "jlog_open_reader_u2 lg ?c0 fs")
  from open_reader_frame [OF o] have t1: "trace c1 = trace ctx @ [Resync_call lg]"
    and m1: "same_meta c1 f1 ctx fs" by (simp_all add: same_meta_def)
  have "(\<exists>ev. trace c = trace ctx @ ev \<and> call_events lg ev) \<and> same_meta c f ctx fs"
  proof (cases "data c1 = None")
    case True
    with assms o t1 m1 show ?thesis
      by (auto simp add: jlog_resync_index_u3_def Let_def same_meta_def)
  next
    case False
    obtain ex c2 f2 l2 cl2 where p1: "jlog_resync_pass lg None c1 f1 = (ex, c2, f2, l2, cl2)"
      by (cases "jlog_resync_pass lg None c1 f1")
    from resync_pass_frame [OF p1] t1 m1
    have t2: "trace c2 = trace ctx @ [Resync_call lg, Resync_pass lg]"
      and m2: "same_meta c2 f2 ctx fs" by (simp_all add: same_meta_def)
    show ?thesis
    proof (cases ex)
      case Return_early
      with assms o False p1 t2 m2 show ?thesis
        by (auto simp add: jlog_resync_index_u3_def Let_def)
    next
      case Goto_finish
      with assms o False p1 t2 m2 show ?thesis
        by (auto simp add: jlog_resync_index_u3_def Let_def resync_finish_def)
    next
      case (Goto_restart off)
      obtain c3 f3 where r: "RESTART lg off c2 f2 = (c3, f3)" by (cases "RESTART lg off c2 f2")
      from RESTART_frame [OF r] t2 m2
      have t3: "trace c3 = trace ctx @ [Resync_call lg, Resync_pass lg,
                                         Index_truncate lg off, Index_unlock lg]"
        and m3: "same_meta c3 f3 ctx fs" by (simp_all add: same_meta_def)
      obtain ex' c4 f4 l4 cl4 where p2: "jlog_resync_pass lg l2 c3 f3 = (ex', c4, f4, l4, cl4)"
        by (cases "jlog_resync_pass lg l2 c3 f3")
      from resync_pass_frame [OF p2] t3 m3
      have t4: "trace c4 = trace ctx @ [Resync_call lg, Resync_pass lg,
                                         Index_truncate lg off, Index_unlock lg, Resync_pass lg]"
        and m4: "same_meta c4 f4 ctx fs" by (simp_all add: same_meta_def)
      from assms o False p1 Goto_restart r p2 t4 m4 show ?thesis
        by (cases ex')
           (auto simp add: jlog_resync_index_u3_def Let_def resync_finish_def SYS_FAIL_def
              same_meta_def)
    qed
  qed
  then show "\<exists>ev. trace c = trace ctx @ ev \<and> call_events lg ev" and "same_meta c f ctx fs"
    by simp_all
qed





















lemma truncate_index_zero:
  assumes "can_write fs" and "index_file fs ih \<noteq> None"
  shows "index_file (truncate_index ih 0 fs) ih = Some []"
  using assms
  by (auto simp add: truncate_index_def jlog_file_truncate_def index_file_def set_index_file_def
        update_conv')









section \<open>Reading a message: the validation of the id\<close>

lemma read_lookup_checks:
  assumes "index_file fs ih = Some f" and "length f mod 8 = 0" and "marker rid \<noteq> 0"
  shows "unat (marker rid) * 8 > length f \<Longrightarrow>
           read_lookup with_lock rid ih ctx fs
             = (Rd_finish None with_lock, SYS_FAIL JLOG_ERR_ILLEGAL_LOGID ctx fs, fs)"
    and "unat (marker rid) * 8 = length f \<Longrightarrow> marker rid \<noteq> 1 \<Longrightarrow>
         dec64 (take 8 (drop ((unat (marker rid) - 1) * 8) f)) = 0 \<Longrightarrow>
           read_lookup with_lock rid ih ctx fs
             = (Rd_return, ctx\<lparr>last_error := JLOG_ERR_CLOSE_LOGID, last_errno := E_NONE\<rparr>, fs)"
    and "unat (marker rid) * 8 < length f \<Longrightarrow> marker rid \<noteq> 1 \<Longrightarrow>
         dec64 (take 8 (drop ((unat (marker rid) - 1) * 8) f)) = 0 \<Longrightarrow>
           read_lookup with_lock rid ih ctx fs
             = (Rd_finish None with_lock, SYS_FAIL JLOG_ERR_IDX_CORRUPT ctx fs, fs)"
proof -
  have m1: "unat (marker rid - 1) = unat (marker rid) - 1"
    using assms(3) by (simp add: unat_minus_one)
  have mpos: "0 < unat (marker rid)" using assms(3) by (simp add: unat_gt_0)
  show "unat (marker rid) * 8 > length f \<Longrightarrow>
           read_lookup with_lock rid ih ctx fs
             = (Rd_finish None with_lock, SYS_FAIL JLOG_ERR_ILLEGAL_LOGID ctx fs, fs)"
    using assms by (simp add: read_lookup_def Let_def)
  show "unat (marker rid) * 8 = length f \<Longrightarrow> marker rid \<noteq> 1 \<Longrightarrow>
         dec64 (take 8 (drop ((unat (marker rid) - 1) * 8) f)) = 0 \<Longrightarrow>
           read_lookup with_lock rid ih ctx fs
             = (Rd_return, ctx\<lparr>last_error := JLOG_ERR_CLOSE_LOGID, last_errno := E_NONE\<rparr>, fs)"
    using assms mpos by (auto simp add: read_lookup_def Let_def jlog_file_pread_def m1)
  show "unat (marker rid) * 8 < length f \<Longrightarrow> marker rid \<noteq> 1 \<Longrightarrow>
         dec64 (take 8 (drop ((unat (marker rid) - 1) * 8) f)) = 0 \<Longrightarrow>
           read_lookup with_lock rid ih ctx fs
             = (Rd_finish None with_lock, SYS_FAIL JLOG_ERR_IDX_CORRUPT ctx fs, fs)"
    using assms mpos by (auto simp add: read_lookup_def Let_def jlog_file_pread_def m1)
qed

lemma read_message_marker_zero:
  assumes "context_mode ctx = JLOG_READ" and "marker rid = 0"
  shows "\<exists>ctx' fs'. jlog_ctx_read_message rid ctx fs = Some (Read_fail, ctx', fs')
           \<and> last_error ctx' = JLOG_ERR_ILLEGAL_LOGID"
proof -
  let ?c1 = "SYS_FAIL JLOG_ERR_ILLEGAL_LOGID (ctx\<lparr>last_error := JLOG_ERR_SUCCESS\<rparr>) fs"
  have p1: "jlog_read_pass False rid ctx fs = (Rd_finish None False, ?c1, fs)"
    using assms by (simp add: jlog_read_pass_def Let_def)
  obtain rv c2 f2 l2 cl2 where r: "jlog_resync_index_u3 (log rid) ?c1 fs = (rv, c2, f2, l2, cl2)"
    by (cases "jlog_resync_index_u3 (log rid) ?c1 fs")
  have m2: "context_mode c2 = JLOG_READ"
    using resync_u3_mode [of "log rid" ?c1 fs] r assms(1) by (simp add: SYS_FAIL_def)
  let ?c3 = "SYS_FAIL JLOG_ERR_ILLEGAL_LOGID (c2\<lparr>last_error := JLOG_ERR_SUCCESS\<rparr>) f2"
  have p2: "jlog_read_pass True rid c2 f2 = (Rd_finish None True, ?c3, f2)"
    using m2 assms(2) by (simp add: jlog_read_pass_def Let_def)
  have e1: "last_error ?c1 = JLOG_ERR_ILLEGAL_LOGID" and e3: "last_error ?c3 = JLOG_ERR_ILLEGAL_LOGID"
    by (simp_all add: SYS_FAIL_def)
  have "read_message_from True rid c2 f2 = Some (Read_fail, ?c3, f2)"
    by (subst read_message_from.simps) (simp add: p2 e3)
  then have "jlog_ctx_read_message rid ctx fs = Some (Read_fail, ?c3, f2)"
    unfolding jlog_ctx_read_message_def
    by (subst read_message_from.simps) (simp add: p1 r e1)
  then show ?thesis using e3 by blast
qed


text \<open>
  What \<open>jlog_ctx_read_message\<close> returns after a pass that is its last: the message
  when the pass has found one and set no error, a failure otherwise.
\<close>

definition pass_verdict ::
  "read_exit \<times> jlog_ctx \<times> jlog_fs \<Rightarrow> read_result \<times> jlog_ctx \<times> jlog_fs" where
  "pass_verdict p =
     (case p of
        (Rd_fault, c, f) \<Rightarrow> (Read_fault, c, f)
      | (Rd_return, c, f) \<Rightarrow> (Read_fail, c, f)
      | (Rd_finish m wl, c, f) \<Rightarrow>
          ((if last_error c = JLOG_ERR_SUCCESS
            then (case m of None \<Rightarrow> Read_fail | Some msg \<Rightarrow> Read_ok msg)
            else Read_fail), c, f))"

lemma mmap_reader_lock:
  "jlog_mmap_reader_u2 lg ctx fs = (rv, c, f) \<Longrightarrow> can_lock f = can_lock fs"
  by (auto simp add: jlog_mmap_reader_u2_def jlog_open_reader_u2_def close_defs Let_def
        split: option.splits if_splits prod.splits)

lemma read_fetch_flag:
  assumes "read_fetch wl0 rid off ctx fs = (ex, c, f)"
  shows "can_lock f = can_lock fs" and "ex = Rd_finish m wl \<Longrightarrow> wl = wl0"
proof -
  obtain rv c1 f1 where mm: "jlog_mmap_reader_u2 (log rid) ctx fs = (rv, c1, f1)"
    by (cases "jlog_mmap_reader_u2 (log rid) ctx fs")
  note l = mmap_reader_lock [OF mm]
  from assms l show "can_lock f = can_lock fs"
    by (auto simp add: read_fetch_def mm Let_def split: if_splits option.splits)
  from assms show "ex = Rd_finish m wl \<Longrightarrow> wl = wl0"
    by (auto simp add: read_fetch_def mm Let_def split: if_splits option.splits)
qed

lemma read_lookup_flag:
  assumes "read_lookup wl0 rid ih ctx fs = (ex, c, f)"
  shows "can_lock f = can_lock fs" and "ex = Rd_finish m wl \<Longrightarrow> wl = wl0"
proof -
  show "can_lock f = can_lock fs"
    using assms read_fetch_flag(1)
    by (auto simp add: read_lookup_def Let_def split: if_splits option.splits)
  show "ex = Rd_finish m wl \<Longrightarrow> wl = wl0"
    using assms read_fetch_flag(2)
    by (auto simp add: read_lookup_def Let_def split: if_splits option.splits)
qed

lemma read_pass_flag:
  assumes "jlog_read_pass wl0 rid ctx fs = (ex, c, f)"
  shows "can_lock f = can_lock fs"
    and "ex = Rd_finish m wl \<Longrightarrow> wl0 \<longrightarrow> can_lock fs \<Longrightarrow> wl = wl0"
proof -
  let ?c0 = "ctx\<lparr>last_error := JLOG_ERR_SUCCESS\<rparr>"
  obtain c1 f1 where o1: "jlog_open_reader_u2 (log rid) ?c0 fs = (c1, f1)"
    by (cases "jlog_open_reader_u2 (log rid) ?c0 fs")
  obtain c2 f2 where o2: "jlog_open_indexer_u2 (log rid) c1 f1 = (c2, f2)"
    by (cases "jlog_open_indexer_u2 (log rid) c1 f1")
  from open_reader_frame(2) [OF o1] open_indexer_frame(2) [OF o2]
  have l: "can_lock f1 = can_lock fs" "can_lock f2 = can_lock fs"
    by (simp_all add: same_meta_def)
  show "can_lock f = can_lock fs"
    using assms l read_lookup_flag(1)
    by (auto simp add: jlog_read_pass_def Let_def o1 o2 split: if_splits option.splits)
  show "ex = Rd_finish m wl \<Longrightarrow> wl0 \<longrightarrow> can_lock fs \<Longrightarrow> wl = wl0"
    using assms l read_lookup_flag(2)
    by (auto simp add: jlog_read_pass_def Let_def o1 o2 split: if_splits option.splits)
qed


text \<open>A pass that holds the lock is the last one.\<close>

lemma read_message_locked:
  assumes "can_lock fs"
  shows "read_message_from True rid ctx fs = Some (pass_verdict (jlog_read_pass True rid ctx fs))"
proof -
  obtain ex c f where p: "jlog_read_pass True rid ctx fs = (ex, c, f)"
    by (cases "jlog_read_pass True rid ctx fs")
  show ?thesis
  proof (cases ex)
    case (Rd_finish m wl)
    from read_pass_flag(2) [OF p Rd_finish] assms have wl by simp
    with Rd_finish show ?thesis
      by (subst read_message_from.simps) (simp add: p pass_verdict_def split: option.splits)
  qed (subst read_message_from.simps, simp add: p pass_verdict_def)+
qed

text \<open>
  After a first pass that ends with an error: the index is truncated to zero when the
  error is \<open>JLOG_ERR_IDX_CORRUPT\<close>, \<open>___jlog_resync_index\<close> is called, and the pass
  under the lock gives the result.
\<close>

lemma read_message_retry:
  assumes "can_lock fs"
    and "jlog_read_pass False rid ctx fs = (Rd_finish m wl, c1, f1)"
    and "last_error c1 \<noteq> JLOG_ERR_SUCCESS"
  shows "jlog_ctx_read_message rid ctx fs
       = (case jlog_resync_index_u3 (log rid) c1
                 (if last_error c1 = JLOG_ERR_IDX_CORRUPT
                  then (case index c1 of None \<Rightarrow> f1 | Some ih \<Rightarrow> truncate_index ih 0 f1)
                  else f1) of
            (rv, c2, f2, l, cl) \<Rightarrow> Some (pass_verdict (jlog_read_pass True rid c2 f2)))"
proof -
  from read_pass_flag [OF assms(2)] assms(1) have l1: "can_lock f1" and w: "\<not> wl" by simp_all
  let ?f = "if last_error c1 = JLOG_ERR_IDX_CORRUPT
            then (case index c1 of None \<Rightarrow> f1 | Some ih \<Rightarrow> truncate_index ih 0 f1) else f1"
  have lf: "can_lock ?f"
    using l1 by (simp add: truncate_index_def set_index_file_def split: option.splits)
  obtain rv c2 f2 l cl where u: "jlog_resync_index_u3 (log rid) c1 ?f = (rv, c2, f2, l, cl)"
    by (cases "jlog_resync_index_u3 (log rid) c1 ?f")
  from resync_u3_frame(2) [OF u] lf have l2: "can_lock f2" by (simp add: same_meta_def)
  note fin = read_message_locked [OF l2, of rid c2]
  have "read_message_from False rid ctx fs = read_message_from True rid c2 f2"
    using assms(3) w l1 u
    by (subst read_message_from.simps) (auto simp add: assms(2) Let_def)
  with fin u show ?thesis by (simp add: jlog_ctx_read_message_def)
qed


text \<open>
  C3, amended. In read mode: a marker of 0 makes \<open>jlog_ctx_read_message\<close> fail with
  \<open>JLOG_ERR_ILLEGAL_LOGID\<close>, and an entry of zero for a marker other than 1 in the last
  slot of the index makes it return the sentinel \<open>JLOG_ERR_CLOSE_LOGID\<close> at once. When
  the index can be locked, an entry of zero in another slot ends the first pass, which
  does not hold the lock, with \<open>JLOG_ERR_IDX_CORRUPT\<close>: the index is then truncated to
  zero, \<open>___jlog_resync_index\<close> is called, and the pass under the lock gives the result
  of the call. A marker behind the index ends the first pass with
  \<open>JLOG_ERR_ILLEGAL_LOGID\<close>: \<open>___jlog_resync_index\<close> is called on the index as it
  is, and the pass under the lock gives the result. Under the lock
  (\<open>read_message_from True\<close>, the function from the label \<open>once_more_with_lock\<close> with
  \<open>with_lock = 1\<close>) the two verdicts are final.
\<close>

theorem read_message_id_validation:
  assumes "context_mode ctx = JLOG_READ"
    and "data ctx = None \<or> data ctx = Some (current_log ctx)"
    and "index ctx = None \<or> index ctx = Some (current_log ctx)"
    and "index_name_fits ctx"
    and "data_file fs (log rid) = Some df" and "index_file fs (log rid) = Some f"
    and "length f mod 8 = 0"
  shows "(marker rid = 0 \<longrightarrow>
           (\<exists>ctx' fs'. jlog_ctx_read_message rid ctx fs = Some (Read_fail, ctx', fs')
              \<and> last_error ctx' = JLOG_ERR_ILLEGAL_LOGID))
       \<and> (marker rid \<noteq> 0 \<and> marker rid \<noteq> 1 \<and> unat (marker rid) * 8 = length f
            \<and> dec64 (take 8 (drop ((unat (marker rid) - 1) * 8) f)) = 0 \<longrightarrow>
           (\<exists>ctx'. jlog_ctx_read_message rid ctx fs = Some (Read_fail, ctx', fs)
              \<and> last_error ctx' = JLOG_ERR_CLOSE_LOGID))
       \<and> (can_lock fs \<and> marker rid \<noteq> 0 \<and> marker rid \<noteq> 1
            \<and> unat (marker rid) * 8 < length f
            \<and> dec64 (take 8 (drop ((unat (marker rid) - 1) * 8) f)) = 0 \<longrightarrow>
           (\<exists>c1. jlog_read_pass False rid ctx fs = (Rd_finish None False, c1, fs)
              \<and> last_error c1 = JLOG_ERR_IDX_CORRUPT
              \<and> jlog_ctx_read_message rid ctx fs
                  = (case jlog_resync_index_u3 (log rid) c1 (truncate_index (log rid) 0 fs) of
                       (rv, c2, f2, l, cl) \<Rightarrow>
                         Some (pass_verdict (jlog_read_pass True rid c2 f2)))
              \<and> (can_write fs \<longrightarrow>
                    index_file (truncate_index (log rid) 0 fs) (log rid) = Some [])))
       \<and> (can_lock fs \<and> marker rid \<noteq> 0 \<and> unat (marker rid) * 8 > length f \<longrightarrow>
           (\<exists>c1. jlog_read_pass False rid ctx fs = (Rd_finish None False, c1, fs)
              \<and> last_error c1 = JLOG_ERR_ILLEGAL_LOGID
              \<and> jlog_ctx_read_message rid ctx fs
                  = (case jlog_resync_index_u3 (log rid) c1 fs of
                       (rv, c2, f2, l, cl) \<Rightarrow>
                         Some (pass_verdict (jlog_read_pass True rid c2 f2)))))
       \<and> (can_lock fs \<and> marker rid \<noteq> 0 \<and> marker rid \<noteq> 1
            \<and> unat (marker rid) * 8 < length f
            \<and> dec64 (take 8 (drop ((unat (marker rid) - 1) * 8) f)) = 0 \<longrightarrow>
           (\<exists>ctx'. read_message_from True rid ctx fs = Some (Read_fail, ctx', fs)
              \<and> last_error ctx' = JLOG_ERR_IDX_CORRUPT))
       \<and> (can_lock fs \<and> marker rid \<noteq> 0 \<and> unat (marker rid) * 8 > length f \<longrightarrow>
           (\<exists>ctx'. read_message_from True rid ctx fs = Some (Read_fail, ctx', fs)
              \<and> last_error ctx' = JLOG_ERR_ILLEGAL_LOGID))"
proof (intro conjI impI)
  assume "marker rid = 0"
  with assms(1) show "\<exists>ctx' fs'. jlog_ctx_read_message rid ctx fs = Some (Read_fail, ctx', fs')
      \<and> last_error ctx' = JLOG_ERR_ILLEGAL_LOGID"
    by (rule read_message_marker_zero)
next
  assume a: "marker rid \<noteq> 0 \<and> marker rid \<noteq> 1 \<and> unat (marker rid) * 8 = length f
            \<and> dec64 (take 8 (drop ((unat (marker rid) - 1) * 8) f)) = 0"
  have lk: "False \<longrightarrow> can_lock fs" by simp
  from a have m: "marker rid \<noteq> 0" by simp
  note p = read_pass_to_lookup [OF assms(1-6) lk m]
  show "\<exists>ctx'. jlog_ctx_read_message rid ctx fs = Some (Read_fail, ctx', fs)
      \<and> last_error ctx' = JLOG_ERR_CLOSE_LOGID"
    unfolding jlog_ctx_read_message_def
    using a by (subst read_message_from.simps)
      (simp add: p read_lookup_checks(2) [OF assms(6,7) m])
next
  assume a: "can_lock fs \<and> marker rid \<noteq> 0 \<and> marker rid \<noteq> 1
            \<and> unat (marker rid) * 8 < length f
            \<and> dec64 (take 8 (drop ((unat (marker rid) - 1) * 8) f)) = 0"
  from a have cl: "can_lock fs" by simp
  have lk: "False \<longrightarrow> can_lock fs" by simp
  from a have m: "marker rid \<noteq> 0" by simp
  let ?c = "(ctx_opened (log rid) (ctx\<lparr>last_error := JLOG_ERR_SUCCESS\<rparr>))
              \<lparr>data := Some (log rid), index := Some (log rid), current_log := log rid\<rparr>"
  let ?c1 = "SYS_FAIL JLOG_ERR_IDX_CORRUPT ?c fs"
  have p: "jlog_read_pass False rid ctx fs = (Rd_finish None False, ?c1, fs)"
    using a by (simp add: read_pass_to_lookup [OF assms(1-6) lk m]
                  read_lookup_checks(3) [OF assms(6,7) m])
  have e: "last_error ?c1 = JLOG_ERR_IDX_CORRUPT" and i: "index ?c1 = Some (log rid)"
    by (simp_all add: SYS_FAIL_def)
  have ne: "last_error ?c1 \<noteq> JLOG_ERR_SUCCESS" by (simp add: e)
  have r: "jlog_ctx_read_message rid ctx fs
           = (case jlog_resync_index_u3 (log rid) ?c1 (truncate_index (log rid) 0 fs) of
                (rv, c2, f2, l, cl) \<Rightarrow> Some (pass_verdict (jlog_read_pass True rid c2 f2)))"
  proof -
    have tf: "(if last_error ?c1 = JLOG_ERR_IDX_CORRUPT
               then (case index ?c1 of None \<Rightarrow> fs | Some ih \<Rightarrow> truncate_index ih 0 fs)
               else fs) = truncate_index (log rid) 0 fs"
      by (simp add: SYS_FAIL_def)
    from read_message_retry [OF cl p ne] show ?thesis by (simp only: tf)
  qed
  have t: "can_write fs \<longrightarrow> index_file (truncate_index (log rid) 0 fs) (log rid) = Some []"
    using assms(6) by (simp add: truncate_index_zero)
  from p e r t show "\<exists>c1. jlog_read_pass False rid ctx fs = (Rd_finish None False, c1, fs)
              \<and> last_error c1 = JLOG_ERR_IDX_CORRUPT
              \<and> jlog_ctx_read_message rid ctx fs
                  = (case jlog_resync_index_u3 (log rid) c1 (truncate_index (log rid) 0 fs) of
                       (rv, c2, f2, l, cl) \<Rightarrow>
                         Some (pass_verdict (jlog_read_pass True rid c2 f2)))
              \<and> (can_write fs \<longrightarrow>
                    index_file (truncate_index (log rid) 0 fs) (log rid) = Some [])"
    by blast
next
  assume a: "can_lock fs \<and> marker rid \<noteq> 0 \<and> unat (marker rid) * 8 > length f"
  from a have cl: "can_lock fs" by simp
  have lk: "False \<longrightarrow> can_lock fs" by simp
  from a have m: "marker rid \<noteq> 0" by simp
  let ?c = "(ctx_opened (log rid) (ctx\<lparr>last_error := JLOG_ERR_SUCCESS\<rparr>))
              \<lparr>data := Some (log rid), index := Some (log rid), current_log := log rid\<rparr>"
  let ?c1 = "SYS_FAIL JLOG_ERR_ILLEGAL_LOGID ?c fs"
  have p: "jlog_read_pass False rid ctx fs = (Rd_finish None False, ?c1, fs)"
    using a by (simp add: read_pass_to_lookup [OF assms(1-6) lk m]
                  read_lookup_checks(1) [OF assms(6,7) m])
  have e: "last_error ?c1 = JLOG_ERR_ILLEGAL_LOGID" by (simp add: SYS_FAIL_def)
  have ne: "last_error ?c1 \<noteq> JLOG_ERR_SUCCESS" by (simp add: e)
  have r: "jlog_ctx_read_message rid ctx fs
           = (case jlog_resync_index_u3 (log rid) ?c1 fs of
                (rv, c2, f2, l, cl) \<Rightarrow> Some (pass_verdict (jlog_read_pass True rid c2 f2)))"
  proof -
    have tf: "(if last_error ?c1 = JLOG_ERR_IDX_CORRUPT
               then (case index ?c1 of None \<Rightarrow> fs | Some ih \<Rightarrow> truncate_index ih 0 fs)
               else fs) = fs"
      by (simp add: SYS_FAIL_def)
    from read_message_retry [OF cl p ne] show ?thesis by (simp only: tf)
  qed
  from p e r show "\<exists>c1. jlog_read_pass False rid ctx fs = (Rd_finish None False, c1, fs)
              \<and> last_error c1 = JLOG_ERR_ILLEGAL_LOGID
              \<and> jlog_ctx_read_message rid ctx fs
                  = (case jlog_resync_index_u3 (log rid) c1 fs of
                       (rv, c2, f2, l, cl) \<Rightarrow>
                         Some (pass_verdict (jlog_read_pass True rid c2 f2)))"
    by blast
next
  assume a: "can_lock fs \<and> marker rid \<noteq> 0 \<and> marker rid \<noteq> 1
            \<and> unat (marker rid) * 8 < length f
            \<and> dec64 (take 8 (drop ((unat (marker rid) - 1) * 8) f)) = 0"
  from a have cl: "can_lock fs" by simp
  then have lk: "True \<longrightarrow> can_lock fs" by simp
  from a have m: "marker rid \<noteq> 0" by simp
  show "\<exists>ctx'. read_message_from True rid ctx fs = Some (Read_fail, ctx', fs)
      \<and> last_error ctx' = JLOG_ERR_IDX_CORRUPT"
    using a
    by (simp add: read_message_locked [OF cl] read_pass_to_lookup [OF assms(1-6) lk m]
          read_lookup_checks(3) [OF assms(6,7) m] pass_verdict_def SYS_FAIL_def)
next
  assume a: "can_lock fs \<and> marker rid \<noteq> 0 \<and> unat (marker rid) * 8 > length f"
  from a have cl: "can_lock fs" by simp
  then have lk: "True \<longrightarrow> can_lock fs" by simp
  from a have m: "marker rid \<noteq> 0" by simp
  show "\<exists>ctx'. read_message_from True rid ctx fs = Some (Read_fail, ctx', fs)
      \<and> last_error ctx' = JLOG_ERR_ILLEGAL_LOGID"
    using a
    by (simp add: read_message_locked [OF cl] read_pass_to_lookup [OF assms(1-6) lk m]
          read_lookup_checks(1) [OF assms(6,7) m] pass_verdict_def SYS_FAIL_def)
qed


text \<open>
  Against C3 as the specification words it. First a data file of one record with the
  payload \<open>a\<close> whose index is still empty: the marker 1 is behind the index, and the
  message is read all the same. Then a data file of two records, \<open>a\<close> and \<open>b\<close>, under an index of
  three entries of zero: for the marker 2 the entry is zero in a slot that is not the
  last, and the call does not fail with \<open>JLOG_ERR_IDX_CORRUPT\<close>, it returns \<open>b\<close>.
\<close>

definition unindexed_fs :: jlog_fs where
  "unindexed_fs =
     example_fs
       \<lparr>data_files :=
          [(0, encode_header \<lparr>reserved = 0x663A7318, tv_sec = 0, tv_usec = 0, mlen = 1\<rparr> @ [0x61])],
        index_files := [(0, [])]\<rparr>"

definition zeroed_index_fs :: jlog_fs where
  "zeroed_index_fs =
     example_fs
       \<lparr>data_files :=
          [(0, encode_header \<lparr>reserved = 0x663A7318, tv_sec = 0, tv_usec = 0, mlen = 1\<rparr> @ [0x61]
               @ encode_header \<lparr>reserved = 0x663A7318, tv_sec = 0, tv_usec = 0, mlen = 1\<rparr>
               @ [0x62])],
        index_files := [(0, replicate 24 0)]\<rparr>"

theorem read_message_id_validation_counterexample:
  "index_file unindexed_fs 0 = Some []
   \<and> unat (marker \<lparr>log = 0, marker = 1\<rparr>) * 8 > length ([] :: bytes)
   \<and> map_option fst (jlog_ctx_read_message \<lparr>log = 0, marker = 1\<rparr> example_ctx unindexed_fs)
     = Some (Read_ok \<lparr>header = \<lparr>reserved = 0x663A7318, tv_sec = 0, tv_usec = 0, mlen = 1\<rparr>,
                      mess_len = 1, mess = [0x61]\<rparr>)
   \<and> index_file zeroed_index_fs 0 = Some (replicate 24 0)
   \<and> unat (marker \<lparr>log = 0, marker = 2\<rparr>) * 8 < length (replicate 24 (0 :: byte))
   \<and> dec64 (take 8 (drop ((unat (marker \<lparr>log = 0, marker = 2\<rparr>) - 1) * 8) (replicate 24 0))) = 0
   \<and> map_option fst (jlog_ctx_read_message \<lparr>log = 0, marker = 2\<rparr> example_ctx zeroed_index_fs)
     = Some (Read_ok \<lparr>header = \<lparr>reserved = 0x663A7318, tv_sec = 0, tv_usec = 0, mlen = 1\<rparr>,
                      mess_len = 1, mess = [0x62]\<rparr>)"
proof -
  let ?r1 = "\<lparr>log = 0, marker = 1\<rparr>"
  let ?r2 = "\<lparr>log = 0, marker = 2\<rparr>"
  let ?ma = "\<lparr>header = \<lparr>reserved = 0x663A7318, tv_sec = 0, tv_usec = 0, mlen = 1\<rparr>,
              mess_len = 1, mess = [0x61]\<rparr>"
  let ?mb = "\<lparr>header = \<lparr>reserved = 0x663A7318, tv_sec = 0, tv_usec = 0, mlen = 1\<rparr>,
              mess_len = 1, mess = [0x62]\<rparr>"
  define p1 where "p1 = jlog_read_pass False ?r1 example_ctx unindexed_fs"
  define p2 where "p2 = jlog_read_pass False ?r2 example_ctx zeroed_index_fs"
  have l1: "can_lock unindexed_fs" and l2: "can_lock zeroed_index_fs" by code_simp+
  have a1: "fst p1 = Rd_finish None False" "last_error (fst (snd p1)) = JLOG_ERR_ILLEGAL_LOGID"
    unfolding p1_def by code_simp+
  have a2: "fst p2 = Rd_finish None False" "last_error (fst (snd p2)) = JLOG_ERR_IDX_CORRUPT"
    unfolding p2_def by code_simp+
  have q1: "jlog_read_pass False ?r1 example_ctx unindexed_fs
            = (Rd_finish None False, fst (snd p1), snd (snd p1))"
    using a1(1) by (simp add: p1_def prod_eq_iff)
  have q2: "jlog_read_pass False ?r2 example_ctx zeroed_index_fs
            = (Rd_finish None False, fst (snd p2), snd (snd p2))"
    using a2(1) by (simp add: p2_def prod_eq_iff)
  have n1: "last_error (fst (snd p1)) \<noteq> JLOG_ERR_SUCCESS" by (simp add: a1)
  have n2: "last_error (fst (snd p2)) \<noteq> JLOG_ERR_SUCCESS" by (simp add: a2)
  have v1: "map_option fst
     (case jlog_resync_index_u3 (log ?r1) (fst (snd p1))
             (if last_error (fst (snd p1)) = JLOG_ERR_IDX_CORRUPT
              then (case index (fst (snd p1)) of None \<Rightarrow> snd (snd p1)
                    | Some ih \<Rightarrow> truncate_index ih 0 (snd (snd p1)))
              else snd (snd p1)) of
        (rv, c2, f2, l, cl) \<Rightarrow> Some (pass_verdict (jlog_read_pass True ?r1 c2 f2)))
     = Some (Read_ok ?ma)"
    unfolding p1_def by code_simp
  have v2: "map_option fst
     (case jlog_resync_index_u3 (log ?r2) (fst (snd p2))
             (if last_error (fst (snd p2)) = JLOG_ERR_IDX_CORRUPT
              then (case index (fst (snd p2)) of None \<Rightarrow> snd (snd p2)
                    | Some ih \<Rightarrow> truncate_index ih 0 (snd (snd p2)))
              else snd (snd p2)) of
        (rv, c2, f2, l, cl) \<Rightarrow> Some (pass_verdict (jlog_read_pass True ?r2 c2 f2)))
     = Some (Read_ok ?mb)"
    unfolding p2_def by code_simp
  have c1: "map_option fst (jlog_ctx_read_message ?r1 example_ctx unindexed_fs)
            = Some (Read_ok ?ma)"
    by (simp only: read_message_retry [OF l1 q1 n1] v1)
  have c2: "map_option fst (jlog_ctx_read_message ?r2 example_ctx zeroed_index_fs)
            = Some (Read_ok ?mb)"
    by (simp only: read_message_retry [OF l2 q2 n2] v2)
  have i1: "index_file unindexed_fs 0 = Some []" by code_simp
  have i2: "index_file zeroed_index_fs 0 = Some (replicate 24 0)" by code_simp
  have z: "dec64 (take 8 (drop ((unat (marker ?r2) - 1) * 8) (replicate 24 0))) = 0"
    by code_simp
  from i1 c1 i2 z c2 show ?thesis by simp
qed

text \<open>
  An index of three entries of zero, over an empty data file. For the marker 2 the call
  truncates the index and fails under the lock with \<open>JLOG_ERR_ILLEGAL_LOGID\<close>, the
  index being empty then.
\<close>

definition zero_index_fs :: jlog_fs where
  "zero_index_fs = example_fs\<lparr>data_files := [(0, [])], index_files := [(0, replicate 24 0)]\<rparr>"

theorem read_message_id_validation_witness:
  "(\<exists>ctx' fs'. jlog_ctx_read_message \<lparr>log = 0, marker = 0\<rparr> example_ctx zero_index_fs
                  = Some (Read_fail, ctx', fs')
              \<and> last_error ctx' = JLOG_ERR_ILLEGAL_LOGID)
   \<and> (\<exists>ctx'. jlog_ctx_read_message \<lparr>log = 0, marker = 3\<rparr> example_ctx zero_index_fs
                = Some (Read_fail, ctx', zero_index_fs)
              \<and> last_error ctx' = JLOG_ERR_CLOSE_LOGID)
   \<and> (\<exists>ctx' fs'. jlog_ctx_read_message \<lparr>log = 0, marker = 2\<rparr> example_ctx zero_index_fs
                = Some (Read_fail, ctx', fs')
              \<and> last_error ctx' = JLOG_ERR_ILLEGAL_LOGID \<and> index_file fs' 0 = Some [])
   \<and> (\<exists>ctx'. read_message_from True \<lparr>log = 0, marker = 2\<rparr> example_ctx zero_index_fs
                = Some (Read_fail, ctx', zero_index_fs)
              \<and> last_error ctx' = JLOG_ERR_IDX_CORRUPT)
   \<and> (\<exists>ctx' fs'. jlog_ctx_read_message \<lparr>log = 0, marker = 4\<rparr> example_ctx zero_index_fs
                = Some (Read_fail, ctx', fs')
              \<and> last_error ctx' = JLOG_ERR_ILLEGAL_LOGID)
   \<and> (\<exists>ctx'. read_message_from True \<lparr>log = 0, marker = 4\<rparr> example_ctx zero_index_fs
                = Some (Read_fail, ctx', zero_index_fs)
              \<and> last_error ctx' = JLOG_ERR_ILLEGAL_LOGID)"
proof -
  have h1: "context_mode example_ctx = JLOG_READ" by (simp add: example_ctx_def)
  have h2: "data example_ctx = None \<or> data example_ctx = Some (current_log example_ctx)"
    by (simp add: example_ctx_def)
  have h3: "index example_ctx = None \<or> index example_ctx = Some (current_log example_ctx)"
    by (simp add: example_ctx_def)
  have h4: "index_name_fits example_ctx" by code_simp
  have h5: "data_file zero_index_fs (log \<lparr>log = 0, marker = m\<rparr>) = Some []" for m
    by (simp add: zero_index_fs_def example_fs_def data_file_def)
  have h6: "index_file zero_index_fs (log \<lparr>log = 0, marker = m\<rparr>) = Some (replicate 24 0)" for m
    by (simp add: zero_index_fs_def example_fs_def index_file_def)
  have h7: "can_lock zero_index_fs" by (simp add: zero_index_fs_def example_fs_def)
  have h8: "length (replicate 24 (0::byte)) mod 8 = 0" by simp
  have z: "dec64 (take 8 (drop ((unat (3::u32) - 1) * 8) (replicate 24 0))) = 0"
          "dec64 (take 8 (drop ((unat (2::u32) - 1) * 8) (replicate 24 0))) = 0"
    by code_simp+
  note t = read_message_id_validation [OF h1 h2 h3 h4 h5 h6 h8]
  from t [of 0] have c1: "\<exists>ctx' fs'. jlog_ctx_read_message \<lparr>log = 0, marker = 0\<rparr> example_ctx zero_index_fs
                  = Some (Read_fail, ctx', fs') \<and> last_error ctx' = JLOG_ERR_ILLEGAL_LOGID"
    by simp
  from t [of 3] z have c2: "\<exists>ctx'. jlog_ctx_read_message \<lparr>log = 0, marker = 3\<rparr> example_ctx zero_index_fs
                = Some (Read_fail, ctx', zero_index_fs) \<and> last_error ctx' = JLOG_ERR_CLOSE_LOGID"
    by simp
  define p2 where "p2 = jlog_read_pass False \<lparr>log = 0, marker = 2\<rparr> example_ctx zero_index_fs"
  define p4 where "p4 = jlog_read_pass False \<lparr>log = 0, marker = 4\<rparr> example_ctx zero_index_fs"
  have v2: "case jlog_resync_index_u3 0 (fst (snd p2)) (truncate_index 0 0 zero_index_fs) of
              (rv, c2, f2, l, cl) \<Rightarrow>
                fst (pass_verdict (jlog_read_pass True \<lparr>log = 0, marker = 2\<rparr> c2 f2)) = Read_fail
                \<and> last_error (fst (snd (pass_verdict
                      (jlog_read_pass True \<lparr>log = 0, marker = 2\<rparr> c2 f2)))) = JLOG_ERR_ILLEGAL_LOGID
                \<and> index_file (snd (snd (pass_verdict
                      (jlog_read_pass True \<lparr>log = 0, marker = 2\<rparr> c2 f2)))) 0 = Some []"
    unfolding p2_def by code_simp
  have v4: "case jlog_resync_index_u3 0 (fst (snd p4)) zero_index_fs of
              (rv, c2, f2, l, cl) \<Rightarrow>
                fst (pass_verdict (jlog_read_pass True \<lparr>log = 0, marker = 4\<rparr> c2 f2)) = Read_fail
                \<and> last_error (fst (snd (pass_verdict
                      (jlog_read_pass True \<lparr>log = 0, marker = 4\<rparr> c2 f2)))) = JLOG_ERR_ILLEGAL_LOGID"
    unfolding p4_def by code_simp
  from t [of 2, THEN conjunct2, THEN conjunct2, THEN conjunct1] z h7 obtain k2 where
    k2: "jlog_read_pass False \<lparr>log = 0, marker = 2\<rparr> example_ctx zero_index_fs
           = (Rd_finish None False, k2, zero_index_fs)"
        "jlog_ctx_read_message \<lparr>log = 0, marker = 2\<rparr> example_ctx zero_index_fs
           = (case jlog_resync_index_u3 0 k2 (truncate_index 0 0 zero_index_fs) of
                (rv, c2, f2, l, cl) \<Rightarrow>
                  Some (pass_verdict (jlog_read_pass True \<lparr>log = 0, marker = 2\<rparr> c2 f2)))"
    by auto
  from k2(1) have "fst (snd p2) = k2" by (simp add: p2_def)
  with v2 k2(2) have c3: "\<exists>ctx' fs'. jlog_ctx_read_message \<lparr>log = 0, marker = 2\<rparr> example_ctx zero_index_fs
                = Some (Read_fail, ctx', fs')
              \<and> last_error ctx' = JLOG_ERR_ILLEGAL_LOGID \<and> index_file fs' 0 = Some []"
    by (auto simp add: prod_eq_iff split: prod.splits)
  from t [of 4, THEN conjunct2, THEN conjunct2, THEN conjunct2, THEN conjunct1] h7 obtain k4 where
    k4: "jlog_read_pass False \<lparr>log = 0, marker = 4\<rparr> example_ctx zero_index_fs
           = (Rd_finish None False, k4, zero_index_fs)"
        "jlog_ctx_read_message \<lparr>log = 0, marker = 4\<rparr> example_ctx zero_index_fs
           = (case jlog_resync_index_u3 0 k4 zero_index_fs of
                (rv, c2, f2, l, cl) \<Rightarrow>
                  Some (pass_verdict (jlog_read_pass True \<lparr>log = 0, marker = 4\<rparr> c2 f2)))"
    by auto
  from k4(1) have "fst (snd p4) = k4" by (simp add: p4_def)
  with v4 k4(2) have c5: "\<exists>ctx' fs'. jlog_ctx_read_message \<lparr>log = 0, marker = 4\<rparr> example_ctx zero_index_fs
                = Some (Read_fail, ctx', fs') \<and> last_error ctx' = JLOG_ERR_ILLEGAL_LOGID"
    by (auto simp add: prod_eq_iff split: prod.splits)
  from t [of 2, THEN conjunct2, THEN conjunct2, THEN conjunct2, THEN conjunct2, THEN conjunct1] z h7
  have c4: "\<exists>ctx'. read_message_from True \<lparr>log = 0, marker = 2\<rparr> example_ctx zero_index_fs
                = Some (Read_fail, ctx', zero_index_fs) \<and> last_error ctx' = JLOG_ERR_IDX_CORRUPT"
    by simp
  from t [of 4, THEN conjunct2, THEN conjunct2, THEN conjunct2, THEN conjunct2, THEN conjunct2] h7
  have c6: "\<exists>ctx'. read_message_from True \<lparr>log = 0, marker = 4\<rparr> example_ctx zero_index_fs
                = Some (Read_fail, ctx', zero_index_fs) \<and> last_error ctx' = JLOG_ERR_ILLEGAL_LOGID"
    by simp
  from c1 c2 c3 c4 c5 c6 show ?thesis by (intro conjI)
qed


end
